theory Spec2Isabelle
  imports Main
begin

section \<open>Python values and library functions used by the script\<close>

text \<open>
  Strings are \<open>string\<close> (lists of 8-bit characters): the model reads every Python
  \<open>str\<close> as text of code points below 256, a character standing for the code point
  of its number.  Special characters are written by code:
  \<open>CHR 0x0A\<close> is the newline, \<open>CHR 0x27\<close> the single quote, \<open>CHR 0x22\<close> the
  double quote, \<open>CHR 0x5C\<close> the backslash.
\<close>

datatype py_error =
    TypeError | KeyError | IndexError | AttributeError
  | JSONDecodeError | UnboundLocalError | OtherError string

text \<open>What a call has done so far: it returned a value, it raised, or it is still
  waiting for the outside world (the next line on standard input, the reply of a
  child process) when the recorded part of the session ends.\<close>

datatype 'a outcome = Returned 'a | Raised py_error | Blocked

text \<open>The observable actions of the script, in the order they happen.\<close>

datatype event =
    Run "string list"   \<comment> \<open>\<open>subprocess.run(argv, ...)\<close>\<close>
  | Print string        \<comment> \<open>\<open>print(...)\<close>, one line\<close>
  | Sleep nat           \<comment> \<open>\<open>time.sleep(seconds)\<close>\<close>
  | Input string        \<comment> \<open>\<open>input(prompt)\<close>\<close>
  | Unpack string       \<comment> \<open>the archive extraction of \<open>unpack(tar_file_path)\<close>\<close>

type_synonym 'a run = "event list \<times> 'a outcome"

text \<open>Sequencing: the events of the first part, then, if it returned, the second part.\<close>

definition and_then :: "'a run \<Rightarrow> ('a \<Rightarrow> 'b run) \<Rightarrow> 'b run" where
  "and_then m f =
     (case snd m of
        Returned a \<Rightarrow> (fst m @ fst (f a), snd (f a))
      | Raised e \<Rightarrow> (fst m, Raised e)
      | Blocked \<Rightarrow> (fst m, Blocked))"

definition emit :: "event list \<Rightarrow> 'a run \<Rightarrow> 'a run" where
  "emit es m = (es @ fst m, snd m)"

subsection \<open>\<open>str\<close> methods\<close>

text \<open>The whitespace of \<open>str.split()\<close>, \<open>str.strip()\<close> and \<open>str.isspace()\<close>: below
  256 these are tab to carriage return, the four separators \<open>0x1C\<close> to \<open>0x1F\<close>, the
  space, the next-line control \<open>0x85\<close> and the no-break space \<open>0xA0\<close>.\<close>

definition py_isspace :: "char \<Rightarrow> bool" where
  "py_isspace c \<longleftrightarrow>
     c \<in> set [CHR 0x09, CHR 0x0A, CHR 0x0B, CHR 0x0C, CHR 0x0D,
               CHR 0x1C, CHR 0x1D, CHR 0x1E, CHR 0x1F, CHR 0x20,
               CHR 0x85, CHR 0xA0]"

definition py_strip :: "string \<Rightarrow> string" where
  "py_strip s = rev (dropWhile py_isspace (rev (dropWhile py_isspace s)))"

text \<open>\<open>str.lower()\<close> on one character: the capital letters, \<open>A\<close> to \<open>Z\<close> and the
  accented ones \<open>0xC0\<close> to \<open>0xDE\<close> (\<open>0xD7\<close>, the multiplication sign, is none), have
  their small letter 32 places on.\<close>

definition lower_char :: "char \<Rightarrow> char" where
  "lower_char c =
     (case map_of
             (zip ''ABCDEFGHIJKLMNOPQRSTUVWXYZ'' ''abcdefghijklmnopqrstuvwxyz'' @
              zip [CHR 0xC0, CHR 0xC1, CHR 0xC2, CHR 0xC3, CHR 0xC4, CHR 0xC5, CHR 0xC6, CHR 0xC7,
                   CHR 0xC8, CHR 0xC9, CHR 0xCA, CHR 0xCB, CHR 0xCC, CHR 0xCD, CHR 0xCE, CHR 0xCF,
                   CHR 0xD0, CHR 0xD1, CHR 0xD2, CHR 0xD3, CHR 0xD4, CHR 0xD5, CHR 0xD6,
                   CHR 0xD8, CHR 0xD9, CHR 0xDA, CHR 0xDB, CHR 0xDC, CHR 0xDD, CHR 0xDE]
                  [CHR 0xE0, CHR 0xE1, CHR 0xE2, CHR 0xE3, CHR 0xE4, CHR 0xE5, CHR 0xE6, CHR 0xE7,
                   CHR 0xE8, CHR 0xE9, CHR 0xEA, CHR 0xEB, CHR 0xEC, CHR 0xED, CHR 0xEE, CHR 0xEF,
                   CHR 0xF0, CHR 0xF1, CHR 0xF2, CHR 0xF3, CHR 0xF4, CHR 0xF5, CHR 0xF6,
                   CHR 0xF8, CHR 0xF9, CHR 0xFA, CHR 0xFB, CHR 0xFC, CHR 0xFD, CHR 0xFE]) c of
        Some d \<Rightarrow> d
      | None \<Rightarrow> c)"

definition py_lower :: "string \<Rightarrow> string" where
  "py_lower s = map lower_char s"

text \<open>\<open>s.split(c)\<close> for a one-character separator; \<open>cur\<close> is the piece being read.\<close>

fun split_on_acc :: "char \<Rightarrow> string \<Rightarrow> string \<Rightarrow> string list" where
  "split_on_acc c [] cur = [cur]"
| "split_on_acc c (x # xs) cur =
     (if x = c then cur # split_on_acc c xs [] else split_on_acc c xs (cur @ [x]))"

definition py_split_on :: "char \<Rightarrow> string \<Rightarrow> string list" where
  "py_split_on c s = split_on_acc c s []"

text \<open>\<open>s.split()\<close>: the maximal runs of non-whitespace characters.\<close>

fun split_ws_acc :: "string \<Rightarrow> string \<Rightarrow> string list" where
  "split_ws_acc [] cur = (if cur = [] then [] else [cur])"
| "split_ws_acc (x # xs) cur =
     (if py_isspace x then (if cur = [] then split_ws_acc xs [] else cur # split_ws_acc xs [])
      else split_ws_acc xs (cur @ [x]))"

definition py_split :: "string \<Rightarrow> string list" where
  "py_split s = split_ws_acc s []"

text \<open>\<open>s.replace(old, new)\<close> for a non-empty \<open>old\<close>: occurrences are found from the
  left and do not overlap; \<open>k\<close> counts the characters of a found occurrence still to skip.\<close>

fun replace_acc :: "string \<Rightarrow> string \<Rightarrow> nat \<Rightarrow> string \<Rightarrow> string" where
  "replace_acc old new k [] = []"
| "replace_acc old new k (x # xs) =
     (if 0 < k then replace_acc old new (k - 1) xs
      else if take (length old) (x # xs) = old
           then new @ replace_acc old new (length old - 1) xs
           else x # replace_acc old new 0 xs)"

definition py_replace :: "string \<Rightarrow> string \<Rightarrow> string \<Rightarrow> string" where
  "py_replace old new s = replace_acc old new 0 s"

text \<open>\<open>needle in s\<close> for strings.\<close>

fun py_in :: "string \<Rightarrow> string \<Rightarrow> bool" where
  "py_in needle [] \<longleftrightarrow> needle = []"
| "py_in needle (x # xs) \<longleftrightarrow> take (length needle) (x # xs) = needle \<or> py_in needle xs"

text \<open>\<open>s.rfind(c)\<close>: the last index of \<open>c\<close>, or \<open>-1\<close>.\<close>

fun rfind_acc :: "char \<Rightarrow> string \<Rightarrow> int \<Rightarrow> int \<Rightarrow> int" where
  "rfind_acc c [] i found = found"
| "rfind_acc c (x # xs) i found = rfind_acc c xs (i + 1) (if x = c then i else found)"

definition py_rfind :: "char \<Rightarrow> string \<Rightarrow> int" where
  "py_rfind c s = rfind_acc c s 0 (- 1)"

subsection \<open>\<open>os.path\<close> (POSIX)\<close>

definition basename :: "string \<Rightarrow> string" where
  "basename p = drop (nat (py_rfind CHR ''/'' p + 1)) p"

text \<open>\<open>os.path.splitext\<close>: the extension starts at the last dot of the last path
  component, unless only dots precede it there.\<close>

definition splitext :: "string \<Rightarrow> string \<times> string" where
  "splitext p =
     (let sepIndex = py_rfind CHR ''/'' p;
          dotIndex = py_rfind CHR ''.'' p
      in if sepIndex < dotIndex \<and>
            list_ex (\<lambda>c. c \<noteq> CHR ''.'')
              (take (nat (dotIndex - (sepIndex + 1))) (drop (nat (sepIndex + 1)) p))
         then (take (nat dotIndex) p, drop (nat dotIndex) p)
         else (p, []))"

subsection \<open>\<open>str()\<close> and \<open>repr()\<close>\<close>

fun digits :: "nat \<Rightarrow> string" where
  "digits n =
     (if n < 10 then [''0123456789'' ! n]
      else digits (n div 10) @ [''0123456789'' ! (n mod 10)])"

definition str_int :: "int \<Rightarrow> string" where
  "str_int i = (if i < 0 then ''-'' @ digits (nat (- i)) else digits (nat i))"

definition hex2 :: "char \<Rightarrow> string" where
  "hex2 c = [''0123456789abcdef'' ! (of_char c div 16), ''0123456789abcdef'' ! (of_char c mod 16)]"

text \<open>\<open>repr\<close> of a \<open>str\<close>: single quotes, unless the text has a single quote and no
  double quote; the quote and the backslash are escaped with a backslash, tab, newline
  and carriage return are written as backslash and a letter, every other character that
  is not printable (the controls below 32, \<open>0x7F\<close> to \<open>0xA0\<close>, the soft hyphen
  \<open>0xAD\<close>) as backslash, \<open>x\<close> and two hexadecimal digits.\<close>

definition repr_quote :: "string \<Rightarrow> char" where
  "repr_quote s = (if CHR 0x27 \<in> set s \<and> CHR 0x22 \<notin> set s then CHR 0x22 else CHR 0x27)"

definition repr_char :: "char \<Rightarrow> char \<Rightarrow> string" where
  "repr_char q c =
     (if c = q \<or> c = CHR 0x5C then [CHR 0x5C, c]
      else if c = CHR 0x09 then [CHR 0x5C, CHR ''t'']
      else if c = CHR 0x0A then [CHR 0x5C, CHR ''n'']
      else if c = CHR 0x0D then [CHR 0x5C, CHR ''r'']
      else if (of_char c :: nat) < 32 \<or> (127 \<le> (of_char c :: nat) \<and> (of_char c :: nat) \<le> 160)
              \<or> c = CHR 0xAD
           then [CHR 0x5C, CHR ''x''] @ hex2 c
      else [c])"

definition py_repr :: "string \<Rightarrow> string" where
  "py_repr s = (let q = repr_quote s in [q] @ concat (map (repr_char q) s) @ [q])"

fun join :: "string \<Rightarrow> string list \<Rightarrow> string" where
  "join sep [] = []"
| "join sep [x] = x"
| "join sep (x # y # ys) = x @ sep @ join sep (y # ys)"

definition repr_str_list :: "string list \<Rightarrow> string" where
  "repr_str_list xs = ''['' @ join '', '' (map py_repr xs) @ '']''"

subsection \<open>Decoded JSON documents\<close>

text \<open>What \<open>json.loads\<close> returns: \<open>None\<close>, a \<open>bool\<close>, an \<open>int\<close>, a \<open>str\<close>, a
  \<open>list\<close> or a \<open>dict\<close> with string keys (an association list, read by its first
  binding of a key).  Numbers with a fraction are left out: no operation of the
  script computes with them.\<close>

datatype json =
    JNull | JBool bool | JNum int | JStr string
  | JArr "json list" | JObj "(string \<times> json) list"

text \<open>\<open>doc[key]\<close> with a string key.\<close>

fun py_getitem :: "json \<Rightarrow> string \<Rightarrow> py_error + json" where
  "py_getitem (JObj kvs) key = (case map_of kvs key of Some v \<Rightarrow> Inr v | None \<Rightarrow> Inl KeyError)"
| "py_getitem _ key = Inl TypeError"

text \<open>\<open>doc[0]\<close>.\<close>

fun py_getitem0 :: "json \<Rightarrow> py_error + json" where
  "py_getitem0 (JArr []) = Inl IndexError"
| "py_getitem0 (JArr (x # xs)) = Inr x"
| "py_getitem0 (JStr []) = Inl IndexError"
| "py_getitem0 (JStr (c # cs)) = Inr (JStr [c])"
| "py_getitem0 (JObj kvs) = Inl KeyError"
| "py_getitem0 _ = Inl TypeError"

text \<open>\<open>doc.get(key)\<close>: only a \<open>dict\<close> has the method.\<close>

fun py_get :: "json \<Rightarrow> string \<Rightarrow> py_error + json" where
  "py_get (JObj kvs) key = (case map_of kvs key of Some v \<Rightarrow> Inr v | None \<Rightarrow> Inr JNull)"
| "py_get _ key = Inl AttributeError"

fun repr_json :: "json \<Rightarrow> string" where
  "repr_json JNull = ''None''"
| "repr_json (JBool b) = (if b then ''True'' else ''False'')"
| "repr_json (JNum n) = str_int n"
| "repr_json (JStr s) = py_repr s"
| "repr_json (JArr xs) = ''['' @ join '', '' (map repr_json xs) @ '']''"
| "repr_json (JObj kvs) =
     ''{'' @ join '', '' (map (\<lambda>kv. py_repr (fst kv) @ '': '' @ repr_json (snd kv)) kvs) @ ''}''"

text \<open>\<open>str(v)\<close>, which an f-string applies to a value it embeds.\<close>

definition str_json :: "json \<Rightarrow> string" where
  "str_json v = (case v of JStr s \<Rightarrow> s | _ \<Rightarrow> repr_json v)"

subsection \<open>Child processes\<close>

text \<open>What a child process leaves behind; \<open>subprocess.CompletedProcess\<close> adds the
  arguments it was started with.\<close>

record reply =
  returncode :: int
  stdout :: string
  stderr :: string

definition str_CompletedProcess :: "string list \<Rightarrow> reply \<Rightarrow> string" where
  "str_CompletedProcess args r =
     ''CompletedProcess(args='' @ repr_str_list args @
     '', returncode='' @ str_int (returncode r) @
     '', stdout='' @ py_repr (stdout r) @
     '', stderr='' @ py_repr (stderr r) @ '')''"

definition quoted :: "string \<Rightarrow> string" where
  "quoted s = [CHR 0x27] @ s @ [CHR 0x27]"

text \<open>The message of all three confirmation loops for an answer that is neither
  \<open>y\<close> nor \<open>n\<close>.\<close>

definition invalid_input :: string where
  "invalid_input =
     ''Invalid input. Please enter '' @ quoted ''y'' @ '' for yes or '' @ quoted ''n'' @ '' for no.''"

section \<open>The AWS importer\<close>

record AWSImageCreator =
  aws_cli_path :: string
  aws_path_to_images :: string

text \<open>\<open>timestamp\<close> is what \<open>datetime.now().strftime("%Y%m%d%H%M%S")\<close> yields in the call.\<close>

definition upload_to_s3 ::
  "AWSImageCreator \<Rightarrow> string \<Rightarrow> string \<Rightarrow> string \<Rightarrow> string \<Rightarrow> string run" where
  "upload_to_s3 self timestamp local_file_path s3_bucket_name region =
     (let s3_object_name_orig = basename local_file_path;
          s3_object_name = fst (splitext s3_object_name_orig) @ ''_'' @ timestamp @ ''.raw''
      in ([Run [aws_cli_path self, ''s3'', ''cp'', local_file_path,
                ''s3://'' @ s3_bucket_name @ ''/'' @ s3_object_name,
                ''--region'', region]],
          Returned s3_object_name))"

text \<open>\<open>status_response_json['ImportSnapshotTasks'][0]['SnapshotTaskDetail'][field]\<close>.\<close>

definition snapshot_task_detail :: "json \<Rightarrow> string \<Rightarrow> py_error + json" where
  "snapshot_task_detail status_response_json field =
     (case py_getitem status_response_json ''ImportSnapshotTasks'' of
        Inl e \<Rightarrow> Inl e
      | Inr tasks \<Rightarrow>
          (case py_getitem0 tasks of
             Inl e \<Rightarrow> Inl e
           | Inr task \<Rightarrow>
               (case py_getitem task ''SnapshotTaskDetail'' of
                  Inl e \<Rightarrow> Inl e
                | Inr detail \<Rightarrow> py_getitem detail field)))"

definition describe_args :: "AWSImageCreator \<Rightarrow> string \<Rightarrow> string \<Rightarrow> string list" where
  "describe_args self import_task_id region =
     [aws_cli_path self, ''ec2'', ''describe-import-snapshot-tasks'',
      ''--import-task-ids'', import_task_id, ''--region'', region]"

text \<open>How the \<open>while True\<close> loop is left: by \<open>break\<close>, with the last status
  document, or by the \<open>return\<close> of the error branch.\<close>

datatype loop_exit = Break json | Return

text \<open>The polling loop of \<open>import_snapshot_and_create_ami\<close>.  \<open>replies\<close> holds, for
  each status query answered so far, what \<open>json.loads\<close> makes of the stripped output
  (or the error it raises); when the replies run out the loop is waiting for the answer
  to the query it has just issued.\<close>

fun wait_for_import ::
  "AWSImageCreator \<Rightarrow> (py_error + json) list \<Rightarrow> string \<Rightarrow> string \<Rightarrow> loop_exit run" where
  "wait_for_import self [] import_task_id region =
     ([Run (describe_args self import_task_id region)], Blocked)"
| "wait_for_import self (reply # replies) import_task_id region =
     emit [Run (describe_args self import_task_id region)]
       (case reply of
          Inl e \<Rightarrow> ([], Raised e)
        | Inr status_response_json \<Rightarrow>
            (case snapshot_task_detail status_response_json ''Status'' of
               Inl e \<Rightarrow> ([], Raised e)
             | Inr status \<Rightarrow>
                 if status = JStr ''completed'' then ([], Returned (Break status_response_json))
                 else if status = JStr ''error''
                 then ([Print ''Error: Import task failed. Exiting.''], Returned Return)
                 else emit
                        [Print (''Import task status: '' @ str_json status @ ''. Waiting...''),
                         (case snapshot_task_detail status_response_json ''Progress'' of
                            Inr progress \<Rightarrow> Print (''Current progress: '' @ str_json progress)
                          | Inl e \<Rightarrow> Print ''No more progress''),
                         Sleep 10]
                        (wait_for_import self replies import_task_id region)))"

definition delete_s3_object ::
  "AWSImageCreator \<Rightarrow> string \<Rightarrow> string \<Rightarrow> string \<Rightarrow> unit run" where
  "delete_s3_object self s3_object_name s3_bucket_name region =
     ([Run [aws_cli_path self, ''s3'', ''rm'',
            ''s3://'' @ s3_bucket_name @ ''/'' @ s3_object_name, ''--region'', region]],
      Returned ())"

text \<open>The question of \<open>prompt_delete_s3_object\<close>.\<close>

definition s3_question :: "string \<Rightarrow> string" where
  "s3_question s3_object_name =
     ''Do you want to delete the S3 object '' @ quoted s3_object_name @
     '' after import as an AMI? (y/n): ''"

text \<open>\<open>keyboard\<close> holds the lines typed so far; when they run out the loop is waiting
  in \<open>input\<close>.\<close>

fun prompt_delete_s3_object ::
  "AWSImageCreator \<Rightarrow> string list \<Rightarrow> string \<Rightarrow> string \<Rightarrow> string \<Rightarrow> unit run" where
  "prompt_delete_s3_object self [] s3_object_name s3_bucket_name region =
     ([Input (s3_question s3_object_name)], Blocked)"
| "prompt_delete_s3_object self (line # keyboard) s3_object_name s3_bucket_name region =
     emit [Input (s3_question s3_object_name)]
       (let delete_input = py_lower line
        in if delete_input = ''y''
           then and_then (delete_s3_object self s3_bucket_name s3_object_name region)
                  (\<lambda>_. ([Print (''S3 object '' @ quoted s3_object_name @ '' deleted.'')],
                        Returned ()))
           else if delete_input = ''n''
           then ([Print (''S3 object '' @ quoted s3_object_name @ '' not deleted.'')],
                 Returned ())
           else emit [Print invalid_input]
                  (prompt_delete_s3_object self keyboard s3_object_name s3_bucket_name region))"

text \<open>What the outside world answers during one AWS import.\<close>

record aws_session =
  import_reply :: "py_error + json"            \<comment> \<open>\<open>json.loads\<close> of the import-snapshot output\<close>
  status_replies :: "(py_error + json) list"   \<comment> \<open>the same for the successive status queries\<close>
  register_reply :: reply                      \<comment> \<open>what register-image leaves behind\<close>
  aws_keyboard :: "string list"                \<comment> \<open>the lines typed at the prompt\<close>

text \<open>\<open>if boot_mode:\<close>\<close>

definition truthy :: "string option \<Rightarrow> bool" where
  "truthy v \<longleftrightarrow> (case v of None \<Rightarrow> False | Some s \<Rightarrow> s \<noteq> [])"

definition register_args ::
  "AWSImageCreator \<Rightarrow> string \<Rightarrow> json \<Rightarrow> string option \<Rightarrow> string \<Rightarrow> string list" where
  "register_args self s3_object_name snapshot_id boot_mode region =
     [aws_cli_path self, ''ec2'', ''register-image'',
      ''--name'', s3_object_name,
      ''--architecture'', ''x86_64'',
      ''--block-device-mappings'',
      ''DeviceName=/dev/sda1,Ebs={SnapshotId='' @ str_json snapshot_id @ ''}'',
      ''--virtualization-type'', ''hvm'',
      ''--root-device-name'', ''/dev/sda1'',
      ''--region'', region,
      ''--ena-support'']
     @ (if truthy boot_mode then [''--boot-mode'', the boot_mode] else [])"

definition import_args :: "AWSImageCreator \<Rightarrow> string \<Rightarrow> string \<Rightarrow> string \<Rightarrow> string list" where
  "import_args self s3_object_name s3_bucket_name region =
     [aws_cli_path self, ''ec2'', ''import-snapshot'',
      ''--disk-container'',
      ''Format=raw,UserBucket={S3Bucket='' @ s3_bucket_name @ '',S3Key='' @ s3_object_name @ ''}'',
      ''--description'', ''Imported snapshot from raw file'',
      ''--region'', region]"

text \<open>The second half of \<open>import_snapshot_and_create_ami\<close>, after the loop has been
  left by \<open>break\<close>: registration, cleanup, return.  The local \<open>ami_id\<close> is \<open>None\<close>
  here while it is unbound: only the \<open>else\<close> branch of the "already in use" test
  assigns it, and the final \<open>return ami_id\<close> raises \<open>UnboundLocalError\<close> otherwise.\<close>

definition register_and_cleanup ::
  "AWSImageCreator \<Rightarrow> aws_session \<Rightarrow> json \<Rightarrow> string \<Rightarrow> string \<Rightarrow> string option \<Rightarrow> bool
     \<Rightarrow> string \<Rightarrow> string option run" where
  "register_and_cleanup self world status_response_json s3_object_name s3_bucket_name boot_mode
       delete_after_import region =
     (case snapshot_task_detail status_response_json ''SnapshotId'' of
        Inl e \<Rightarrow> ([], Raised e)
      | Inr snapshot_id \<Rightarrow>
          (let ami_creation_args =
                 register_args self s3_object_name snapshot_id boot_mode region;
               create_ami_response =
                 str_CompletedProcess ami_creation_args (register_reply world);
               ami_id = (if py_in ''already in use'' create_ami_response then None
                         else Some (py_strip (stdout (register_reply world))))
           in emit
                (Run ami_creation_args #
                 (case ami_id of
                    None \<Rightarrow> [Print ''This snapshot is already in use:'', Print create_ami_response]
                  | Some a \<Rightarrow> [Print (''AMI ID: '' @ a)]))
                (and_then
                   (if delete_after_import
                    then delete_s3_object self s3_bucket_name s3_object_name region
                    else prompt_delete_s3_object self (aws_keyboard world)
                           s3_bucket_name s3_object_name region)
                   (\<lambda>_. case ami_id of
                           None \<Rightarrow> ([], Raised UnboundLocalError)
                         | Some a \<Rightarrow> ([], Returned (Some a))))))"

definition import_snapshot_and_create_ami ::
  "AWSImageCreator \<Rightarrow> aws_session \<Rightarrow> string \<Rightarrow> string \<Rightarrow> string option \<Rightarrow> bool \<Rightarrow> string
     \<Rightarrow> string option run" where
  "import_snapshot_and_create_ami self world s3_object_name s3_bucket_name boot_mode
       delete_after_import region =
     emit [Run (import_args self s3_object_name s3_bucket_name region)]
       (case import_reply world of
          Inl e \<Rightarrow> ([], Raised e)
        | Inr import_task_json \<Rightarrow>
            (case py_get import_task_json ''ImportTaskId'' of
               Inl e \<Rightarrow> ([], Raised e)
             | Inr import_task_id \<Rightarrow>
                 and_then
                   (case import_task_id of
                      JStr task \<Rightarrow> wait_for_import self (status_replies world) task region
                    | _ \<Rightarrow> ([], Raised TypeError))
                   (\<lambda>exit.
                      case exit of
                        Return \<Rightarrow> ([], Returned None)
                      | Break status_response_json \<Rightarrow>
                          register_and_cleanup self world status_response_json s3_object_name
                            s3_bucket_name boot_mode delete_after_import region)))"

section \<open>The Azure importer\<close>

record AzureImageCreator =
  az_cli_path :: string
  az_path_to_images :: string

definition upload ::
  "AzureImageCreator \<Rightarrow> string \<Rightarrow> string \<Rightarrow> string \<Rightarrow> string \<Rightarrow> string run" where
  "upload self timestamp local_file_path container_name storage_account_name =
     (let blob_name = basename local_file_path;
          blob_name_orig = fst (splitext blob_name);
          file_extension = snd (splitext blob_name);
          blob_name = blob_name_orig @ ''_'' @ timestamp @ file_extension
      in ([Run [az_cli_path self, ''storage'', ''blob'', ''upload'',
                ''--account-name'', storage_account_name,
                ''--file'', local_file_path,
                ''--container-name'', container_name,
                ''--name'', blob_name]],
          Returned blob_name))"

definition azure_delete :: "AzureImageCreator \<Rightarrow> string \<Rightarrow> string \<Rightarrow> string \<Rightarrow> unit run" where
  "azure_delete self blob_name container_name storage_account_name =
     ([Run [az_cli_path self, ''storage'', ''blob'', ''delete'',
            ''--account-name'', storage_account_name,
            ''--container-name'', container_name,
            ''--name'', blob_name]],
      Returned ())"

text \<open>The question of the Azure \<open>prompt_delete\<close> (it says "S3 object" too).\<close>

definition blob_question :: "string \<Rightarrow> string" where
  "blob_question blob_name =
     ''Do you want to delete the S3 object '' @ quoted blob_name @
     '' after import as an AMI? (y/n): ''"

fun azure_prompt_delete ::
  "AzureImageCreator \<Rightarrow> string list \<Rightarrow> string \<Rightarrow> string \<Rightarrow> string \<Rightarrow> unit run" where
  "azure_prompt_delete self [] blob_name container_name storage_account_name =
     ([Input (blob_question blob_name)], Blocked)"
| "azure_prompt_delete self (line # keyboard) blob_name container_name storage_account_name =
     emit [Input (blob_question blob_name)]
       (let delete_input = py_lower line
        in if delete_input = ''y''
           then and_then (azure_delete self blob_name container_name storage_account_name)
                  (\<lambda>_. ([Print (''Bucket object '' @ quoted blob_name @ '' deleted.'')],
                        Returned ()))
           else if delete_input = ''n''
           then ([Print (''Bucket object '' @ quoted blob_name @ '' not deleted.'')],
                 Returned ())
           else emit [Print invalid_input]
                  (azure_prompt_delete self keyboard blob_name container_name
                     storage_account_name))"

text \<open>What the outside world answers during one Azure import.\<close>

record azure_session =
  create_time :: string               \<comment> \<open>the clock reading of \<open>create_image_from_blob\<close>\<close>
  create_reply :: reply               \<comment> \<open>what \<open>az image create\<close> leaves behind\<close>
  create_json :: "py_error + json"    \<comment> \<open>\<open>json.loads\<close> of its output\<close>
  az_keyboard :: "string list"

definition create_image_from_blob ::
  "AzureImageCreator \<Rightarrow> azure_session \<Rightarrow> string \<Rightarrow> bool \<Rightarrow> string \<Rightarrow> string \<Rightarrow> string
     \<Rightarrow> string \<Rightarrow> json option run" where
  "create_image_from_blob self world blob_name delete_after_import region resource_group
       container_name storage_account_name =
     (let timestamp = create_time world;
          image_name = blob_name @ ''-'' @ timestamp;
          create_image_cmd =
            [az_cli_path self, ''image'', ''create'',
             ''--resource-group'', resource_group,
             ''--name'', image_name,
             ''--source'', ''https://'' @ storage_account_name @ ''.blob.core.windows.net/'' @
                           container_name @ ''/'' @ blob_name,
             ''--os-type'', ''Linux'',
             ''--location'', region]
      in emit [Run create_image_cmd]
           (if returncode (create_reply world) \<noteq> 0
            then ([Print (''Error creating the image: '' @ stderr (create_reply world))],
                  Returned None)
            else (case create_json world of
                    Inl e \<Rightarrow> ([], Raised e)
                  | Inr image_info \<Rightarrow>
                      emit [Print ''Resulting blob ID:'']
                        (case py_getitem image_info ''id'' of
                           Inl e \<Rightarrow> ([], Raised e)
                         | Inr ident \<Rightarrow>
                             emit [Print (str_json ident)]
                               (and_then
                                  (if delete_after_import
                                   then azure_delete self blob_name container_name
                                          storage_account_name
                                   else azure_prompt_delete self (az_keyboard world) blob_name
                                          container_name storage_account_name)
                                  (\<lambda>_. ([], Returned (Some ident))))))))"

section \<open>The GCP importer\<close>

record GCPImageCreator =
  gcp_cli_path :: string
  gcp_util_path :: string
  gcp_path_to_images :: string

definition upload_to_bucket :: "GCPImageCreator \<Rightarrow> string \<Rightarrow> string \<Rightarrow> string run" where
  "upload_to_bucket self raw_archive_name gcp_bucket_name =
     ([Run [gcp_util_path self, ''-m'', ''cp'', ''-n'', raw_archive_name,
            ''gs://'' @ gcp_bucket_name]],
      Returned raw_archive_name)"

definition gcp_delete :: "GCPImageCreator \<Rightarrow> string \<Rightarrow> string \<Rightarrow> unit run" where
  "gcp_delete self gcloud_object_name gcp_bucket_name =
     ([Run [gcp_cli_path self, ''storage'', ''rm'',
            ''gs://'' @ gcp_bucket_name @ ''/'' @ gcloud_object_name]],
      Returned ())"

definition gcloud_question :: "string \<Rightarrow> string" where
  "gcloud_question gcloud_object_name =
     ''Do you want to delete the gcloud object '' @ quoted gcloud_object_name @
     '' after import? (y/n): ''"

fun gcp_prompt_delete :: "GCPImageCreator \<Rightarrow> string list \<Rightarrow> string \<Rightarrow> string \<Rightarrow> unit run" where
  "gcp_prompt_delete self [] gcloud_object_name gcp_bucket_name =
     ([Input (gcloud_question gcloud_object_name)], Blocked)"
| "gcp_prompt_delete self (line # keyboard) gcloud_object_name gcp_bucket_name =
     emit [Input (gcloud_question gcloud_object_name)]
       (let delete_input = py_lower line
        in if delete_input = ''y''
           then and_then (gcp_delete self gcloud_object_name gcp_bucket_name)
                  (\<lambda>_. ([Print (''Google cloud object '' @ quoted gcloud_object_name @
                                 '' deleted.'')],
                        Returned ()))
           else if delete_input = ''n''
           then ([Print (''Google cloud object '' @ quoted gcloud_object_name @
                         '' not deleted.'')],
                 Returned ())
           else emit [Print invalid_input]
                  (gcp_prompt_delete self keyboard gcloud_object_name gcp_bucket_name))"

text \<open>\<open>xs[i]\<close> on a list.\<close>

definition py_index :: "'a list \<Rightarrow> nat \<Rightarrow> py_error + 'a" where
  "py_index xs i = (if i < length xs then Inr (xs ! i) else Inl IndexError)"

record gcp_session =
  images_create_reply :: reply        \<comment> \<open>what \<open>gcloud compute images create\<close> leaves behind\<close>
  gcp_keyboard :: "string list"

definition create_image ::
  "GCPImageCreator \<Rightarrow> gcp_session \<Rightarrow> string \<Rightarrow> string \<Rightarrow> string option \<Rightarrow> bool
     \<Rightarrow> string option run" where
  "create_image self world gcloud_object_name gcp_bucket_name boot_mode delete_after_import =
     (let basename_image = basename gcloud_object_name;
          image_name = ''image-'' @ py_replace ''-image.tar'' [] (fst (splitext basename_image));
          create_image_cmd =
            (if boot_mode = Some ''uefi''
             then [gcp_cli_path self, ''compute'', ''images'', ''create'', image_name,
                   ''--source-uri'', ''gs://'' @ gcp_bucket_name @ ''/'' @ basename_image,
                   ''--guest-os-features=UEFI_COMPATIBLE,VIRTIO_SCSI_MULTIQUEUE,SEV_CAPABLE'']
             else [gcp_cli_path self, ''compute'', ''images'', ''create'', image_name,
                   ''--source-uri'', ''gs://'' @ gcp_bucket_name @ ''/'' @ basename_image]);
          create_image_response = images_create_reply world
      in emit [Run create_image_cmd]
           (if returncode create_image_response \<noteq> 0
            then ([Print (''Error creating the image: '' @ stderr create_image_response)],
                  Returned None)
            else (let create_image_stdout = py_split_on CHR 0x0A (stdout create_image_response)
                  in case py_index create_image_stdout 1 of
                       Inl e \<Rightarrow> ([], Raised e)
                     | Inr second_line \<Rightarrow>
                         (let values = py_split second_line
                          in case py_index values 0 of
                               Inl e \<Rightarrow> ([], Raised e)
                             | Inr image_name \<Rightarrow>
                                 (case py_index values 1 of
                                    Inl e \<Rightarrow> ([], Raised e)
                                  | Inr image_project \<Rightarrow>
                                      emit [Print (''Image created: '' @ image_name)]
                                        (and_then
                                           (if delete_after_import
                                            then gcp_delete self basename_image gcp_bucket_name
                                            else gcp_prompt_delete self (gcp_keyboard world)
                                                   basename_image gcp_bucket_name)
                                           (\<lambda>_. ([], Returned (Some
                                                   (''projects/'' @ image_project @
                                                    ''/global/images/'' @ image_name))))))))))"

section \<open>The driver\<close>

text \<open>The parsed command line.  \<open>argparse\<close> restricts \<open>--cloud\<close> to the three
  providers, so the final \<open>else\<close> of \<open>main\<close> has no input; every other option is
  \<open>None\<close> when it is not given.\<close>

datatype cloud = AWS | Azure | GCP

record args =
  a_path :: "string option"
  a_image :: "string option"
  a_cloud :: cloud
  a_boot :: "string option"
  a_bucket :: "string option"
  a_delete :: bool
  a_region :: "string option"
  a_resource_group :: "string option"
  a_storage_account_name :: "string option"

text \<open>The three \<open>unpack\<close> methods work on the file system only.  They are modelled by
  the event of the extraction and by how it ends: it goes through and the method hands
  back the path of the image it finds (\<open>None\<close> when it finds none), or it raises an
  exception \<open>e\<close>, of which \<open>str(e)\<close> is the text.  The AWS and the Azure method
  catch the exception, print it and return \<open>None\<close>; the GCP method has no handler.\<close>

datatype unpacking = Unpacked "string option" | UnpackFailed py_error string

record world =
  unpacked :: unpacking
  upload_time :: string               \<comment> \<open>the clock reading of the upload method\<close>
  aws_world :: aws_session
  azure_world :: azure_session
  gcp_world :: gcp_session

definition aws_unpack :: "AWSImageCreator \<Rightarrow> world \<Rightarrow> string \<Rightarrow> string option run" where
  "aws_unpack self w tar_file_path =
     emit [Unpack tar_file_path]
       (case unpacked w of
          Unpacked found \<Rightarrow> ([], Returned found)
        | UnpackFailed e text \<Rightarrow> ([Print (''Unpacking error: '' @ text)], Returned None))"

definition azure_unpack :: "AzureImageCreator \<Rightarrow> world \<Rightarrow> string \<Rightarrow> string option run" where
  "azure_unpack self w tar_file_path =
     emit [Unpack tar_file_path]
       (case unpacked w of
          Unpacked found \<Rightarrow> ([], Returned found)
        | UnpackFailed e text \<Rightarrow> ([Print (''Unpacking error: '' @ text)], Returned None))"

definition gcp_unpack :: "GCPImageCreator \<Rightarrow> world \<Rightarrow> string \<Rightarrow> string run" where
  "gcp_unpack self w tar_file_path =
     emit [Unpack tar_file_path]
       (case unpacked w of
          UnpackFailed e text \<Rightarrow> ([], Raised e)
        | Unpacked found \<Rightarrow>
            (let image = (case found of None \<Rightarrow> [] | Some p \<Rightarrow> p)
             in ([Print (''image_name:'' @ image)], Returned image)))"

text \<open>An optional string embedded in an f-string.\<close>

definition str_opt :: "string option \<Rightarrow> string" where
  "str_opt v = (case v of None \<Rightarrow> ''None'' | Some s \<Rightarrow> s)"

text \<open>\<open>subprocess.run\<close> raises \<open>TypeError\<close> for an argument list that holds \<open>None\<close>,
  and so does \<open>os.path.basename(None)\<close>, before anything is started: a call of a
  method whose arguments end up there raises without an event.\<close>

definition main_aws :: "world \<Rightarrow> args \<Rightarrow> string option \<Rightarrow> unit run" where
  "main_aws w a boot_mode =
     (let aws_image_creator =
            \<lparr>aws_cli_path = ''aws'', aws_path_to_images = ''cloud_images_val_shared/image/''\<rparr>
      in and_then
           (if truthy (a_path a) then aws_unpack aws_image_creator w (the (a_path a))
            else ([], Returned (a_image a)))
           (\<lambda>raw_file_name.
              and_then
                (case (raw_file_name, a_region a) of
                   (Some raw, Some region) \<Rightarrow>
                     upload_to_s3 aws_image_creator (upload_time w) raw (str_opt (a_bucket a)) region
                 | _ \<Rightarrow> ([], Raised TypeError))
                (\<lambda>s3_object_name.
                   emit [Print (''Uploaded as: '' @ s3_object_name)]
                     (and_then
                        (import_snapshot_and_create_ami aws_image_creator (aws_world w)
                           s3_object_name (str_opt (a_bucket a)) boot_mode (a_delete a)
                           (the (a_region a)))
                        (\<lambda>ami_id. ([Print (''Resulting AMI ID: '' @ str_opt ami_id)],
                                    Returned ()))))))"

definition main_azure :: "world \<Rightarrow> args \<Rightarrow> unit run" where
  "main_azure w a =
     (let azure_image_creator =
            \<lparr>az_cli_path = ''az'', az_path_to_images = ''cloud_images_val_shared/image/''\<rparr>
      in and_then
           (if truthy (a_path a) then azure_unpack azure_image_creator w (the (a_path a))
            else ([], Returned (a_image a)))
           (\<lambda>raw_file_name.
              and_then
                (case (raw_file_name, a_bucket a, a_storage_account_name a) of
                   (Some raw, Some bucket, Some account) \<Rightarrow>
                     upload azure_image_creator (upload_time w) raw bucket account
                 | _ \<Rightarrow> ([], Raised TypeError))
                (\<lambda>blob_name.
                   emit [Print (''Uploaded as: '' @ blob_name)]
                     (and_then
                        (case (a_region a, a_resource_group a) of
                           (Some region, Some resource_group) \<Rightarrow>
                             create_image_from_blob azure_image_creator (azure_world w) blob_name
                               (a_delete a) region resource_group (the (a_bucket a))
                               (the (a_storage_account_name a))
                         | _ \<Rightarrow> ([], Raised TypeError))
                        (\<lambda>azure_id.
                           ([Print (''Resulting blob ID: '' @
                                    (case azure_id of None \<Rightarrow> ''None'' | Some i \<Rightarrow> str_json i))],
                            Returned ()))))))"

definition main_gcp :: "world \<Rightarrow> args \<Rightarrow> string option \<Rightarrow> unit run" where
  "main_gcp w a boot_mode =
     (let gcp_image_creator =
            \<lparr>gcp_cli_path = ''gcloud'', gcp_util_path = ''gsutil'',
             gcp_path_to_images = ''cloud_images_val_shared/image/''\<rparr>
      in and_then
           (if truthy (a_path a) then gcp_unpack gcp_image_creator w (the (a_path a))
            else ([], Returned (the (a_image a))))
           (\<lambda>raw_name.
              and_then (upload_to_bucket gcp_image_creator raw_name (str_opt (a_bucket a)))
                (\<lambda>gloud_object_name.
                   emit [Print (''Uploaded as: '' @ gloud_object_name)]
                     (and_then
                        (create_image gcp_image_creator (gcp_world w) gloud_object_name
                           (str_opt (a_bucket a)) boot_mode (a_delete a))
                        (\<lambda>gcp_name. ([Print (''Resulting image name: '' @ str_opt gcp_name)],
                                      Returned ()))))))"

definition main :: "world \<Rightarrow> args \<Rightarrow> unit run" where
  "main w a =
     (if \<not> truthy (a_path a) \<and> \<not> truthy (a_image a)
      then ([Print ''Either -p or -i option is required. Use --help for more information.''],
            Returned ())
      else if truthy (a_path a) \<and> truthy (a_image a)
      then ([Print ''Both -p and -i options cannot be used together. Use --help for more information.''],
            Returned ())
      else (let boot_mode = (if truthy (a_boot a) then a_boot a else None)
            in case a_cloud a of
                 AWS \<Rightarrow> main_aws w a boot_mode
               | Azure \<Rightarrow> main_azure w a
               | GCP \<Rightarrow> main_gcp w a boot_mode))"

section \<open>Reading a trace\<close>

text \<open>The commands started, in order.\<close>

fun commands :: "event list \<Rightarrow> string list list" where
  "commands [] = []"
| "commands (Run argv # es) = argv # commands es"
| "commands (e # es) = commands es"

fun is_print :: "event \<Rightarrow> bool" where
  "is_print (Print text) = True"
| "is_print e = False"

fun is_input :: "event \<Rightarrow> bool" where
  "is_input (Input text) = True"
| "is_input e = False"

fun is_sleep :: "event \<Rightarrow> bool" where
  "is_sleep (Sleep n) = True"
| "is_sleep e = False"

text \<open>A status query is a command whose subcommand is
  \<open>describe-import-snapshot-tasks\<close>.\<close>

fun is_status_query :: "event \<Rightarrow> bool" where
  "is_status_query (Run (tool # service # subcommand # rest)) \<longleftrightarrow>
     subcommand = ''describe-import-snapshot-tasks''"
| "is_status_query e = False"

definition polling :: "event \<Rightarrow> bool" where
  "polling e \<longleftrightarrow> is_status_query e \<or> is_sleep e"

text \<open>A reply that keeps the loop going: it carries a status that is neither
  \<open>completed\<close> nor \<open>error\<close>.\<close>

definition non_terminal :: "py_error + json \<Rightarrow> bool" where
  "non_terminal reply =
     (case reply of
        Inl e \<Rightarrow> False
      | Inr doc \<Rightarrow>
          (case snapshot_task_detail doc ''Status'' of
             Inl e \<Rightarrow> False
           | Inr status \<Rightarrow> status \<noteq> JStr ''completed'' \<and> status \<noteq> JStr ''error''))"

text \<open>A line that answers neither yes nor no.\<close>

definition no_answer :: "string \<Rightarrow> bool" where
  "no_answer line \<longleftrightarrow> py_lower line \<noteq> ''y'' \<and> py_lower line \<noteq> ''n''"

text \<open>A status document without the \<open>Progress\<close> field of
  \<open>['ImportSnapshotTasks'][0]['SnapshotTaskDetail']\<close>; everything else is kept.\<close>

fun update_key :: "string \<Rightarrow> (json \<Rightarrow> json) \<Rightarrow> (string \<times> json) list \<Rightarrow> (string \<times> json) list" where
  "update_key k f [] = []"
| "update_key k f (kv # kvs) =
     (if fst kv = k then (k, f (snd kv)) # kvs else kv # update_key k f kvs)"

definition drop_progress_detail :: "json \<Rightarrow> json" where
  "drop_progress_detail detail =
     (case detail of
        JObj members \<Rightarrow> JObj (filter (\<lambda>kv. fst kv \<noteq> ''Progress'') members)
      | _ \<Rightarrow> detail)"

definition drop_progress_task :: "json \<Rightarrow> json" where
  "drop_progress_task task =
     (case task of
        JObj members \<Rightarrow> JObj (update_key ''SnapshotTaskDetail'' drop_progress_detail members)
      | _ \<Rightarrow> task)"

definition drop_progress_tasks :: "json \<Rightarrow> json" where
  "drop_progress_tasks tasks =
     (case tasks of
        JArr (task # others) \<Rightarrow> JArr (drop_progress_task task # others)
      | _ \<Rightarrow> tasks)"

definition without_progress :: "json \<Rightarrow> json" where
  "without_progress doc =
     (case doc of
        JObj members \<Rightarrow> JObj (update_key ''ImportSnapshotTasks'' drop_progress_tasks members)
      | _ \<Rightarrow> doc)"

definition reply_without_progress :: "py_error + json \<Rightarrow> py_error + json" where
  "reply_without_progress reply =
     (case reply of Inl e \<Rightarrow> Inl e | Inr doc \<Rightarrow> Inr (without_progress doc))"

text \<open>The object name as the specification words it: base name, timestamp, original
  extension (joined by the underscore the code puts before the timestamp).\<close>

definition spec_object_name :: "string \<Rightarrow> string \<Rightarrow> string" where
  "spec_object_name local_file_path timestamp =
     fst (splitext (basename local_file_path)) @ ''_'' @ timestamp @
     snd (splitext (basename local_file_path))"

section \<open>A sample session\<close>

text \<open>The importers as \<open>main\<close> builds them, and the answers of a provider that reports
  \<open>active\<close> once, with progress 42, then \<open>completed\<close> with snapshot \<open>snap-1\<close>, and
  registers the image \<open>ami-1\<close>.\<close>

definition aws_creator :: AWSImageCreator where
  "aws_creator = \<lparr>aws_cli_path = ''aws'', aws_path_to_images = ''cloud_images_val_shared/image/''\<rparr>"

definition azure_creator :: AzureImageCreator where
  "azure_creator = \<lparr>az_cli_path = ''az'', az_path_to_images = ''cloud_images_val_shared/image/''\<rparr>"

definition gcp_creator :: GCPImageCreator where
  "gcp_creator = \<lparr>gcp_cli_path = ''gcloud'', gcp_util_path = ''gsutil'',
                   gcp_path_to_images = ''cloud_images_val_shared/image/''\<rparr>"

definition status_document :: "string \<Rightarrow> (string \<times> json) list \<Rightarrow> json" where
  "status_document status members =
     JObj [(''ImportSnapshotTasks'',
            JArr [JObj [(''SnapshotTaskDetail'', JObj ((''Status'', JStr status) # members))]])]"

definition sample_aws :: aws_session where
  "sample_aws =
     \<lparr>import_reply = Inr (JObj [(''ImportTaskId'', JStr ''import-snap-1'')]),
      status_replies = [Inr (status_document ''active'' [(''Progress'', JStr ''42'')]),
                        Inr (status_document ''completed'' [(''SnapshotId'', JStr ''snap-1'')])],
      register_reply = \<lparr>returncode = 0, stdout = ''ami-1'' @ [CHR 0x0A], stderr = []\<rparr>,
      aws_keyboard = [''maybe'', ''Y'']\<rparr>"

definition sample_azure :: azure_session where
  "sample_azure =
     \<lparr>create_time = ''20240101000001'',
      create_reply = \<lparr>returncode = 0, stdout = ''{'' @ [CHR 0x22] @ ''id'' @ [CHR 0x22] @ '': '' @ [CHR 0x22] @ ''/images/disk'' @ [CHR 0x22] @ ''}'',
                      stderr = []\<rparr>,
      create_json = Inr (JObj [(''id'', JStr ''/images/disk'')]),
      az_keyboard = [''maybe'', ''Y'']\<rparr>"

definition sample_gcp :: gcp_session where
  "sample_gcp =
     \<lparr>images_create_reply =
        \<lparr>returncode = 0, stdout = ''NAME PROJECT'' @ [CHR 0x0A] @ ''img-x proj-y'', stderr = []\<rparr>,
      gcp_keyboard = [''maybe'', ''Y'']\<rparr>"

text \<open>A response with a status column, an indented second line, a no-break space and a
  tab between name and project, and a final newline.\<close>

definition padded_gcp :: gcp_session where
  "padded_gcp =
     \<lparr>images_create_reply =
        \<lparr>returncode = 0,
         stdout = ''NAME PROJECT STATUS'' @ [CHR 0x0A] @ ''  img-x'' @ [CHR 0xA0, CHR 0x09] @
                  ''proj-y READY'' @ [CHR 0x0A],
         stderr = []\<rparr>,
      gcp_keyboard = []\<rparr>"

definition sample_world :: world where
  "sample_world =
     \<lparr>unpacked = Unpacked (Some ''cloud_images_val_shared/image/disk.raw''),
      upload_time = ''20240101000000'',
      aws_world = sample_aws, azure_world = sample_azure, gcp_world = sample_gcp\<rparr>"

text \<open>\<open>-i disk.raw -c aws --bucket b --delete --region us-east-1\<close>\<close>

definition sample_args :: args where
  "sample_args =
     \<lparr>a_path = None, a_image = Some ''disk.raw'', a_cloud = AWS, a_boot = None,
      a_bucket = Some ''b'', a_delete = True, a_region = Some ''us-east-1'',
      a_resource_group = None, a_storage_account_name = None\<rparr>"

text \<open>The same session, except that the registration fails because the snapshot already
  backs an image.\<close>

definition in_use_world :: world where
  "in_use_world =
     sample_world\<lparr>aws_world :=
       sample_aws\<lparr>register_reply :=
         \<lparr>returncode = 254, stdout = [], stderr = ''Snapshot snap-1 is already in use''\<rparr>\<rparr>\<rparr>"

section \<open>Input validation of the driver\<close>

text \<open>
  Claim C7.  A job whose archive path and raw image path are both set, or of which
  neither is set, is rejected before any backend operation: \<open>main\<close> prints the
  matching message and returns, and the message is the only event of the run (no
  unpacking, no command, no prompt).  "Set" is read as \<open>main\<close> tests it, by the truth
  value of the option: given and not the empty string.
\<close>

theorem main_rejects_both_or_neither:
  "(truthy (a_path a) \<and> truthy (a_image a) \<longrightarrow>
      main w a =
        ([Print ''Both -p and -i options cannot be used together. Use --help for more information.''],
         Returned ()))
   \<and> (\<not> truthy (a_path a) \<and> \<not> truthy (a_image a) \<longrightarrow>
      main w a =
        ([Print ''Either -p or -i option is required. Use --help for more information.''],
         Returned ()))"
  by (simp add: main_def)

theorem main_rejects_both_or_neither_witness:
  "truthy (a_path (sample_args\<lparr>a_path := Some ''build.tar''\<rparr>))
   \<and> truthy (a_image (sample_args\<lparr>a_path := Some ''build.tar''\<rparr>))
   \<and> main sample_world (sample_args\<lparr>a_path := Some ''build.tar''\<rparr>) =
        ([Print ''Both -p and -i options cannot be used together. Use --help for more information.''],
         Returned ())
   \<and> \<not> truthy (a_path (sample_args\<lparr>a_image := None\<rparr>))
   \<and> \<not> truthy (a_image (sample_args\<lparr>a_image := None\<rparr>))
   \<and> main sample_world (sample_args\<lparr>a_image := None\<rparr>) =
        ([Print ''Either -p or -i option is required. Use --help for more information.''],
         Returned ())"
  using main_rejects_both_or_neither [of "sample_args\<lparr>a_path := Some ''build.tar''\<rparr>" sample_world]
        main_rejects_both_or_neither [of "sample_args\<lparr>a_image := None\<rparr>" sample_world]
  by (simp add: sample_args_def truthy_def)

section \<open>Names of uploaded objects\<close>

lemma splitext_parts: "fst (splitext p) @ snd (splitext p) = p"
  by (simp add: splitext_def Let_def)

text \<open>
  Claim C5, as stated, fails: the name an upload returns is not, for every provider,
  base name, timestamp and original extension.  The GCP upload returns the path it was
  given, without a timestamp, and the AWS upload ends every name in \<open>.raw\<close>, whatever
  the extension of the file was.
\<close>

theorem upload_name_counterexample:
  "snd (upload_to_bucket gcp_creator ''disk.tar.gz'' ''b'')
     \<noteq> Returned (spec_object_name ''disk.tar.gz'' ''20240101000000'')
   \<and> snd (upload_to_s3 aws_creator ''20240101000000'' ''disk.img'' ''b'' ''us-east-1'')
     \<noteq> Returned (spec_object_name ''disk.img'' ''20240101000000'')"
  by (simp add: upload_to_bucket_def upload_to_s3_def spec_object_name_def splitext_def
        basename_def py_rfind_def Let_def)

text \<open>
  Claim C5, amended.  The Azure upload returns base name, underscore, timestamp and the
  original extension.  The AWS upload returns base name, underscore, timestamp and the
  fixed extension \<open>.raw\<close>.  For both, the same file uploaded at two timestamps gets the
  same name only if the timestamps are equal.  The GCP upload returns the path unchanged.
  Base name and extension are the two parts \<open>os.path.splitext\<close> cuts the last path
  component into.
\<close>

theorem upload_names:
  "snd (upload self_az ts p container account) = Returned (spec_object_name p ts)
   \<and> snd (upload_to_s3 self_aws ts p bucket region) =
       Returned (fst (splitext (basename p)) @ ''_'' @ ts @ ''.raw'')
   \<and> snd (upload_to_bucket self_gcp p bucket) = Returned p
   \<and> ((snd (upload self_az ts p container account) =
        snd (upload self_az ts' p container account)) = (ts = ts'))
   \<and> ((snd (upload_to_s3 self_aws ts p bucket region) =
        snd (upload_to_s3 self_aws ts' p bucket region)) = (ts = ts'))
   \<and> fst (splitext (basename p)) @ snd (splitext (basename p)) = basename p"
  by (simp add: upload_def upload_to_s3_def upload_to_bucket_def spec_object_name_def
        Let_def splitext_parts)

theorem upload_names_witness:
  "snd (upload azure_creator ''20240101000000'' ''out/disk.vhd'' ''c'' ''account'') =
     Returned ''disk_20240101000000.vhd''
   \<and> snd (upload_to_s3 aws_creator ''20240101000000'' ''out/disk.vhd'' ''b'' ''us-east-1'') =
     Returned ''disk_20240101000000.raw''
   \<and> snd (upload_to_bucket gcp_creator ''out/disk.vhd'' ''b'') = Returned ''out/disk.vhd''"
  using upload_names [of azure_creator "''20240101000000''" "''out/disk.vhd''" "''c''" "''account''"
          aws_creator "''b''" "''us-east-1''" gcp_creator "''20240101000000''"]
  by (simp add: spec_object_name_def splitext_def basename_def py_rfind_def Let_def)

section \<open>The confirmation loops\<close>

lemma emit_simps: "fst (emit es m) = es @ fst m" "snd (emit es m) = snd m"
  by (simp_all add: emit_def)

lemma emit_emit: "emit es (emit fs m) = emit (es @ fs) m"
  by (simp add: emit_def)

lemma lower_char_y: "(lower_char c = CHR ''y'') = (c = CHR ''y'' \<or> c = CHR ''Y'')"
  by (auto simp add: lower_char_def)

lemma lower_char_n: "(lower_char c = CHR ''n'') = (c = CHR ''n'' \<or> c = CHR ''N'')"
  by (auto simp add: lower_char_def)

lemma py_lower_y: "(py_lower line = ''y'') = (line \<in> {''y'', ''Y''})"
  by (cases line) (auto simp add: py_lower_def lower_char_y)

lemma py_lower_n: "(py_lower line = ''n'') = (line \<in> {''n'', ''N''})"
  by (cases line) (auto simp add: py_lower_def lower_char_n)

lemma no_answer_iff: "no_answer line = (line \<notin> {''y'', ''Y'', ''n'', ''N''})"
  by (auto simp add: no_answer_def py_lower_y py_lower_n)

text \<open>A run of lines that answer nothing only adds re-prompts: the loop goes on from
  the rest of the lines with the arguments it started with.\<close>

lemma aws_prompt_skips:
  "\<forall>line\<in>set pre. no_answer line \<Longrightarrow>
   prompt_delete_s3_object self (pre @ keyboard) name bucket region =
     emit (concat (replicate (length pre) [Input (s3_question name), Print invalid_input]))
       (prompt_delete_s3_object self keyboard name bucket region)"
proof (induction pre)
  case Nil
  show ?case by (simp add: emit_def)
next
  case (Cons line pre)
  then show ?case by (simp add: no_answer_def emit_emit)
qed

lemma azure_prompt_skips:
  "\<forall>line\<in>set pre. no_answer line \<Longrightarrow>
   azure_prompt_delete self (pre @ keyboard) name container account =
     emit (concat (replicate (length pre) [Input (blob_question name), Print invalid_input]))
       (azure_prompt_delete self keyboard name container account)"
proof (induction pre)
  case Nil
  show ?case by (simp add: emit_def)
next
  case (Cons line pre)
  then show ?case by (simp add: no_answer_def emit_emit)
qed

lemma gcp_prompt_skips:
  "\<forall>line\<in>set pre. no_answer line \<Longrightarrow>
   gcp_prompt_delete self (pre @ keyboard) name bucket =
     emit (concat (replicate (length pre) [Input (gcloud_question name), Print invalid_input]))
       (gcp_prompt_delete self keyboard name bucket)"
proof (induction pre)
  case Nil
  show ?case by (simp add: emit_def)
next
  case (Cons line pre)
  then show ?case by (simp add: no_answer_def emit_emit)
qed

lemma aws_prompt_cases:
  assumes "\<forall>line\<in>set pre. no_answer line"
  shows "(py_lower x = ''y'' \<longrightarrow>
            prompt_delete_s3_object self (pre @ x # post) name bucket region =
              (concat (replicate (length pre) [Input (s3_question name), Print invalid_input]) @
               [Input (s3_question name),
                Run [aws_cli_path self, ''s3'', ''rm'', ''s3://'' @ name @ ''/'' @ bucket,
                     ''--region'', region],
                Print (''S3 object '' @ quoted name @ '' deleted.'')],
               Returned ()))
       \<and> (py_lower x = ''n'' \<longrightarrow>
            prompt_delete_s3_object self (pre @ x # post) name bucket region =
              (concat (replicate (length pre) [Input (s3_question name), Print invalid_input]) @
               [Input (s3_question name), Print (''S3 object '' @ quoted name @ '' not deleted.'')],
               Returned ()))
       \<and> prompt_delete_s3_object self pre name bucket region =
              (concat (replicate (length pre) [Input (s3_question name), Print invalid_input]) @
               [Input (s3_question name)],
               Blocked)"
  using aws_prompt_skips [OF assms, of self "x # post" name bucket region]
        aws_prompt_skips [OF assms, of self "[]" name bucket region]
  by (simp add: emit_def and_then_def delete_s3_object_def)

lemma azure_prompt_cases:
  assumes "\<forall>line\<in>set pre. no_answer line"
  shows "(py_lower x = ''y'' \<longrightarrow>
            azure_prompt_delete self (pre @ x # post) name container account =
              (concat (replicate (length pre) [Input (blob_question name), Print invalid_input]) @
               [Input (blob_question name),
                Run [az_cli_path self, ''storage'', ''blob'', ''delete'',
                     ''--account-name'', account, ''--container-name'', container,
                     ''--name'', name],
                Print (''Bucket object '' @ quoted name @ '' deleted.'')],
               Returned ()))
       \<and> (py_lower x = ''n'' \<longrightarrow>
            azure_prompt_delete self (pre @ x # post) name container account =
              (concat (replicate (length pre) [Input (blob_question name), Print invalid_input]) @
               [Input (blob_question name),
                Print (''Bucket object '' @ quoted name @ '' not deleted.'')],
               Returned ()))
       \<and> azure_prompt_delete self pre name container account =
              (concat (replicate (length pre) [Input (blob_question name), Print invalid_input]) @
               [Input (blob_question name)],
               Blocked)"
  using azure_prompt_skips [OF assms, of self "x # post" name container account]
        azure_prompt_skips [OF assms, of self "[]" name container account]
  by (simp add: emit_def and_then_def azure_delete_def)

lemma gcp_prompt_cases:
  assumes "\<forall>line\<in>set pre. no_answer line"
  shows "(py_lower x = ''y'' \<longrightarrow>
            gcp_prompt_delete self (pre @ x # post) name bucket =
              (concat (replicate (length pre) [Input (gcloud_question name), Print invalid_input]) @
               [Input (gcloud_question name),
                Run [gcp_cli_path self, ''storage'', ''rm'', ''gs://'' @ bucket @ ''/'' @ name],
                Print (''Google cloud object '' @ quoted name @ '' deleted.'')],
               Returned ()))
       \<and> (py_lower x = ''n'' \<longrightarrow>
            gcp_prompt_delete self (pre @ x # post) name bucket =
              (concat (replicate (length pre) [Input (gcloud_question name), Print invalid_input]) @
               [Input (gcloud_question name),
                Print (''Google cloud object '' @ quoted name @ '' not deleted.'')],
               Returned ()))
       \<and> gcp_prompt_delete self pre name bucket =
              (concat (replicate (length pre) [Input (gcloud_question name), Print invalid_input]) @
               [Input (gcloud_question name)],
               Blocked)"
  using gcp_prompt_skips [OF assms, of self "x # post" name bucket]
        gcp_prompt_skips [OF assms, of self "[]" name bucket]
  by (simp add: emit_def and_then_def gcp_delete_def)

text \<open>
  Claim C8.  Feed the confirmation loop of any of the three importers lines \<open>pre\<close>
  that are none of \<open>y\<close>, \<open>Y\<close>, \<open>n\<close>, \<open>N\<close>.  Each of them is answered by the
  invalid-input message and the same question again, and nothing else happens: after
  them the loop is still waiting for input, however many they are, and no delete command
  has been started.  If the next line is \<open>y\<close> or \<open>Y\<close> the loop starts the delete
  command, once, reports it and returns; if it is \<open>n\<close> or \<open>N\<close> the loop reports that
  nothing was deleted and returns without a command; lines after that are not read.
  (The AWS loop hands its two name parameters to the delete in exchanged positions,
  hence the order in the URL below; claim C10 is about that.)
\<close>

theorem confirmation_loop:
  assumes "\<forall>line\<in>set pre. line \<notin> {''y'', ''Y'', ''n'', ''N''}"
  shows
    "(x \<in> {''y'', ''Y''} \<longrightarrow>
        prompt_delete_s3_object aws_self (pre @ x # post) s3_object_name s3_bucket_name region =
          (concat (replicate (length pre) [Input (s3_question s3_object_name), Print invalid_input]) @
           [Input (s3_question s3_object_name),
            Run [aws_cli_path aws_self, ''s3'', ''rm'',
                 ''s3://'' @ s3_object_name @ ''/'' @ s3_bucket_name, ''--region'', region],
            Print (''S3 object '' @ quoted s3_object_name @ '' deleted.'')],
           Returned ())
      \<and> azure_prompt_delete az_self (pre @ x # post) blob_name container_name account =
          (concat (replicate (length pre) [Input (blob_question blob_name), Print invalid_input]) @
           [Input (blob_question blob_name),
            Run [az_cli_path az_self, ''storage'', ''blob'', ''delete'',
                 ''--account-name'', account, ''--container-name'', container_name,
                 ''--name'', blob_name],
            Print (''Bucket object '' @ quoted blob_name @ '' deleted.'')],
           Returned ())
      \<and> gcp_prompt_delete gcp_self (pre @ x # post) gcloud_object_name gcp_bucket_name =
          (concat (replicate (length pre)
                     [Input (gcloud_question gcloud_object_name), Print invalid_input]) @
           [Input (gcloud_question gcloud_object_name),
            Run [gcp_cli_path gcp_self, ''storage'', ''rm'',
                 ''gs://'' @ gcp_bucket_name @ ''/'' @ gcloud_object_name],
            Print (''Google cloud object '' @ quoted gcloud_object_name @ '' deleted.'')],
           Returned ()))
     \<and> (x \<in> {''n'', ''N''} \<longrightarrow>
        prompt_delete_s3_object aws_self (pre @ x # post) s3_object_name s3_bucket_name region =
          (concat (replicate (length pre) [Input (s3_question s3_object_name), Print invalid_input]) @
           [Input (s3_question s3_object_name),
            Print (''S3 object '' @ quoted s3_object_name @ '' not deleted.'')],
           Returned ())
      \<and> azure_prompt_delete az_self (pre @ x # post) blob_name container_name account =
          (concat (replicate (length pre) [Input (blob_question blob_name), Print invalid_input]) @
           [Input (blob_question blob_name),
            Print (''Bucket object '' @ quoted blob_name @ '' not deleted.'')],
           Returned ())
      \<and> gcp_prompt_delete gcp_self (pre @ x # post) gcloud_object_name gcp_bucket_name =
          (concat (replicate (length pre)
                     [Input (gcloud_question gcloud_object_name), Print invalid_input]) @
           [Input (gcloud_question gcloud_object_name),
            Print (''Google cloud object '' @ quoted gcloud_object_name @ '' not deleted.'')],
           Returned ()))
     \<and> prompt_delete_s3_object aws_self pre s3_object_name s3_bucket_name region =
          (concat (replicate (length pre) [Input (s3_question s3_object_name), Print invalid_input]) @
           [Input (s3_question s3_object_name)],
           Blocked)
     \<and> azure_prompt_delete az_self pre blob_name container_name account =
          (concat (replicate (length pre) [Input (blob_question blob_name), Print invalid_input]) @
           [Input (blob_question blob_name)],
           Blocked)
     \<and> gcp_prompt_delete gcp_self pre gcloud_object_name gcp_bucket_name =
          (concat (replicate (length pre)
                     [Input (gcloud_question gcloud_object_name), Print invalid_input]) @
           [Input (gcloud_question gcloud_object_name)],
           Blocked)"
proof -
  from assms have quiet: "\<forall>line\<in>set pre. no_answer line"
    by (simp add: no_answer_iff)
  have yes: "x \<in> {''y'', ''Y''} \<Longrightarrow> py_lower x = ''y''"
    by (simp add: py_lower_y)
  have no: "x \<in> {''n'', ''N''} \<Longrightarrow> py_lower x = ''n''"
    by (simp add: py_lower_n)
  note aws = aws_prompt_cases [OF quiet, of x aws_self post s3_object_name s3_bucket_name region]
  note az = azure_prompt_cases [OF quiet, of x az_self post blob_name container_name account]
  note gcp = gcp_prompt_cases [OF quiet, of x gcp_self post gcloud_object_name gcp_bucket_name]
  show ?thesis
    using aws az gcp yes no by blast
qed

theorem confirmation_loop_witness:
  "''maybe'' \<notin> {''y'', ''Y'', ''n'', ''N''}
   \<and> ''yes'' \<notin> {''y'', ''Y'', ''n'', ''N''}
   \<and> ''Y'' \<in> {''y'', ''Y''}
   \<and> commands (fst (prompt_delete_s3_object aws_creator [''maybe'', ''yes'', ''Y'', ''n'']
                       ''b'' ''disk.raw'' ''us-east-1'')) =
       [[''aws'', ''s3'', ''rm'', ''s3://b/disk.raw'', ''--region'', ''us-east-1'']]
   \<and> snd (prompt_delete_s3_object aws_creator [''maybe'', ''yes'', ''Y'', ''n'']
             ''b'' ''disk.raw'' ''us-east-1'') = Returned ()
   \<and> ''N'' \<in> {''n'', ''N''}
   \<and> commands (fst (gcp_prompt_delete gcp_creator [''maybe'', ''yes'', ''N'', ''y'']
                       ''disk.tar.gz'' ''b'')) = []
   \<and> snd (gcp_prompt_delete gcp_creator [''maybe'', ''yes'', ''N'', ''y''] ''disk.tar.gz'' ''b'') =
       Returned ()
   \<and> commands (fst (azure_prompt_delete azure_creator [''maybe'', ''yes''] ''disk.vhd'' ''c''
                       ''account'')) = []
   \<and> snd (azure_prompt_delete azure_creator [''maybe'', ''yes''] ''disk.vhd'' ''c'' ''account'') =
       Blocked"
  using confirmation_loop [of "[''maybe'', ''yes'']" "''Y''" aws_creator "[''n'']" "''b''"
          "''disk.raw''" "''us-east-1''" azure_creator "''disk.vhd''" "''c''" "''account''"
          gcp_creator "''disk.tar.gz''" "''b''"]
        confirmation_loop [of "[''maybe'', ''yes'']" "''N''" aws_creator "[''y'']" "''b''"
          "''disk.raw''" "''us-east-1''" azure_creator "''disk.vhd''" "''c''" "''account''"
          gcp_creator "''disk.tar.gz''" "''b''"]
  by (simp add: aws_creator_def)

section \<open>The polling loop of the AWS importer\<close>

lemma fst_and_then:
  "fst (and_then m f) =
     fst m @ (case snd m of Returned a \<Rightarrow> fst (f a) | Raised e \<Rightarrow> [] | Blocked \<Rightarrow> [])"
  by (simp add: and_then_def split: outcome.splits)

lemma snd_and_then:
  "snd (and_then m f) =
     (case snd m of Returned a \<Rightarrow> snd (f a) | Raised e \<Rightarrow> Raised e | Blocked \<Rightarrow> Blocked)"
  by (simp add: and_then_def split: outcome.splits)

lemma commands_append: "commands (es @ fs) = commands es @ commands fs"
  by (induction es rule: commands.induct) simp_all

text \<open>Once the import request is answered with a task identifier that is a string,
  the importer is the request, the loop, and what follows the loop.\<close>

lemma import_unfold:
  assumes "import_reply world = Inr doc" and "py_get doc ''ImportTaskId'' = Inr (JStr task)"
  shows "import_snapshot_and_create_ami self world name bucket boot del region =
     emit [Run (import_args self name bucket region)]
       (and_then (wait_for_import self (status_replies world) task region)
          (\<lambda>exit. case exit of
                     Return \<Rightarrow> ([], Returned None)
                   | Break status_response_json \<Rightarrow>
                       register_and_cleanup self world status_response_json name bucket boot del
                         region))"
  using assms by (simp add: import_snapshot_and_create_ami_def)

lemma wait_nonempty: "fst (wait_for_import self replies task region) \<noteq> []"
  by (cases replies) (simp_all add: emit_def)

lemma wait_step:
  assumes "non_terminal reply"
  shows "\<exists>a b. wait_for_import self (reply # rest) task region =
           emit [Run (describe_args self task region), Print a, Print b, Sleep 10]
             (wait_for_import self rest task region)"
proof -
  from assms obtain doc status where "reply = Inr doc"
    and "snapshot_task_detail doc ''Status'' = Inr status"
    and "status \<noteq> JStr ''completed''" and "status \<noteq> JStr ''error''"
    by (auto simp add: non_terminal_def split: sum.splits)
  then show ?thesis
    by (cases "snapshot_task_detail doc ''Progress''") (simp_all add: emit_def)
qed

lemma wait_skips:
  assumes "\<forall>r\<in>set pre. non_terminal r"
  shows "snd (wait_for_import self (pre @ rest) task region) =
           snd (wait_for_import self rest task region)
    \<and> commands (fst (wait_for_import self (pre @ rest) task region)) =
        replicate (length pre) (describe_args self task region) @
        commands (fst (wait_for_import self rest task region))
    \<and> last (fst (wait_for_import self (pre @ rest) task region)) =
        last (fst (wait_for_import self rest task region))
    \<and> filter is_input (fst (wait_for_import self (pre @ rest) task region)) =
        filter is_input (fst (wait_for_import self rest task region))"
  using assms
proof (induction pre)
  case Nil
  show ?case by simp
next
  case (Cons reply pre)
  from Cons.prems have "non_terminal reply" by simp
  from wait_step [OF this, of self "pre @ rest" task region]
  obtain a b where "wait_for_import self ((reply # pre) @ rest) task region =
           emit [Run (describe_args self task region), Print a, Print b, Sleep 10]
             (wait_for_import self (pre @ rest) task region)"
    by auto
  with Cons show ?case
    by (simp add: emit_def wait_nonempty)
qed

lemma wait_error:
  assumes "\<forall>r\<in>set pre. non_terminal r"
    and "snapshot_task_detail bad ''Status'' = Inr (JStr ''error'')"
  shows "snd (wait_for_import self (pre @ Inr bad # post) task region) = Returned Return"
    and "commands (fst (wait_for_import self (pre @ Inr bad # post) task region)) =
           replicate (length pre + 1) (describe_args self task region)"
    and "last (fst (wait_for_import self (pre @ Inr bad # post) task region)) =
           Print ''Error: Import task failed. Exiting.''"
    and "filter is_input (fst (wait_for_import self (pre @ Inr bad # post) task region)) = []"
  using wait_skips [OF assms(1), of self "Inr bad # post" task region] assms(2)
  by (simp_all add: emit_def replicate_append_same)

lemma wait_completed:
  assumes "\<forall>r\<in>set pre. non_terminal r"
    and "snapshot_task_detail done ''Status'' = Inr (JStr ''completed'')"
  shows "snd (wait_for_import self (pre @ Inr done # post) task region) = Returned (Break done)"
    and "commands (fst (wait_for_import self (pre @ Inr done # post) task region)) =
           replicate (length pre + 1) (describe_args self task region)"
  using wait_skips [OF assms(1), of self "Inr done # post" task region] assms(2)
  by (simp_all add: emit_def replicate_append_same)

lemma wait_blocked:
  assumes "\<forall>r\<in>set replies. non_terminal r"
  shows "snd (wait_for_import self replies task region) = Blocked"
  using wait_skips [OF assms, of self "[]" task region] by simp

lemma wait_polling:
  "filter polling (fst (wait_for_import self replies task region)) =
     concat (replicate (length (takeWhile non_terminal replies))
               [Run (describe_args self task region), Sleep 10]) @
     [Run (describe_args self task region)]"
proof (induction replies)
  case Nil
  show ?case by (simp add: polling_def describe_args_def)
next
  case (Cons reply replies)
  then show ?case
    by (simp add: emit_def non_terminal_def polling_def describe_args_def split: sum.splits)
qed

lemma aws_prompt_no_polling:
  "filter polling (fst (prompt_delete_s3_object self keyboard name bucket region)) = []"
  by (induction keyboard)
     (simp_all add: emit_def and_then_def delete_s3_object_def polling_def Let_def)

lemma register_no_polling:
  "filter polling (fst (register_and_cleanup self world doc name bucket boot del region)) = []"
  by (simp add: register_and_cleanup_def Let_def emit_def fst_and_then aws_prompt_no_polling
        delete_s3_object_def polling_def register_args_def
      split: sum.splits outcome.splits option.splits)

text \<open>
  Claim C3.  Take any sequence of replies to the status queries, and let \<open>k\<close> be the
  number of replies at its front that carry a status other than \<open>completed\<close> and
  \<open>error\<close>.  Of status queries and sleeps, the whole import then performs exactly
  this: \<open>k\<close> times a query followed by a sleep of 10 seconds, and one more query, the
  one whose reply ends the loop (or is still awaited).  No status query follows it,
  whatever the later replies would have been, and while every reply is non-terminal the
  import is still polling.
\<close>

theorem polling_stops_at_terminal_status:
  assumes "import_reply world = Inr doc" and "py_get doc ''ImportTaskId'' = Inr (JStr task)"
  shows "filter polling
           (fst (import_snapshot_and_create_ami self world name bucket boot del region)) =
         concat (replicate (length (takeWhile non_terminal (status_replies world)))
                   [Run (describe_args self task region), Sleep 10]) @
         [Run (describe_args self task region)]
     \<and> ((\<forall>r\<in>set (status_replies world). non_terminal r) \<longrightarrow>
          snd (import_snapshot_and_create_ami self world name bucket boot del region) = Blocked)"
  by (simp add: import_unfold [OF assms] emit_def fst_and_then snd_and_then wait_polling
        wait_blocked register_no_polling polling_def import_args_def
      split: outcome.splits loop_exit.splits)

theorem polling_stops_at_terminal_status_witness:
  "import_reply sample_aws = Inr (JObj [(''ImportTaskId'', JStr ''import-snap-1'')])
   \<and> py_get (JObj [(''ImportTaskId'', JStr ''import-snap-1'')]) ''ImportTaskId'' =
       Inr (JStr ''import-snap-1'')
   \<and> filter polling
       (fst (import_snapshot_and_create_ami aws_creator sample_aws ''disk.raw'' ''b'' None True
               ''us-east-1'')) =
     [Run [''aws'', ''ec2'', ''describe-import-snapshot-tasks'', ''--import-task-ids'',
           ''import-snap-1'', ''--region'', ''us-east-1''],
      Sleep 10,
      Run [''aws'', ''ec2'', ''describe-import-snapshot-tasks'', ''--import-task-ids'',
           ''import-snap-1'', ''--region'', ''us-east-1'']]
   \<and> list_all non_terminal
         (status_replies (sample_aws\<lparr>status_replies := [Inr (status_document ''active'' [])]\<rparr>))
   \<and> snd (import_snapshot_and_create_ami aws_creator
             (sample_aws\<lparr>status_replies := [Inr (status_document ''active'' [])]\<rparr>)
             ''disk.raw'' ''b'' None True ''us-east-1'') = Blocked"
  using polling_stops_at_terminal_status
          [of sample_aws "JObj [(''ImportTaskId'', JStr ''import-snap-1'')]" "''import-snap-1''"
              aws_creator "''disk.raw''" "''b''" None True "''us-east-1''"]
        polling_stops_at_terminal_status
          [of "sample_aws\<lparr>status_replies := [Inr (status_document ''active'' [])]\<rparr>"
              "JObj [(''ImportTaskId'', JStr ''import-snap-1'')]" "''import-snap-1''"
              aws_creator "''disk.raw''" "''b''" None True "''us-east-1''"]
  by (simp add: sample_aws_def non_terminal_def status_document_def snapshot_task_detail_def
        describe_args_def aws_creator_def)

text \<open>
  Claim C4.  When the replies to the status queries are non-terminal ones followed by
  one whose status is \<open>error\<close>, the import returns \<open>None\<close>, and the last thing it does
  is print the fatal message.  The commands it has started are the import request and
  the status queries up to that reply, so no image is registered and nothing is
  deleted; it has asked nothing at the prompt.
\<close>

theorem error_status_aborts:
  assumes "import_reply world = Inr doc" and "py_get doc ''ImportTaskId'' = Inr (JStr task)"
    and "status_replies world = pre @ Inr bad # post"
    and "\<forall>r\<in>set pre. non_terminal r"
    and "snapshot_task_detail bad ''Status'' = Inr (JStr ''error'')"
  shows "snd (import_snapshot_and_create_ami self world name bucket boot del region) =
           Returned None
    \<and> last (fst (import_snapshot_and_create_ami self world name bucket boot del region)) =
        Print ''Error: Import task failed. Exiting.''
    \<and> commands (fst (import_snapshot_and_create_ami self world name bucket boot del region)) =
        import_args self name bucket region #
        replicate (length pre + 1) (describe_args self task region)
    \<and> filter is_input
        (fst (import_snapshot_and_create_ami self world name bucket boot del region)) = []"
  using wait_error [OF assms(4,5), of self post task region]
        wait_nonempty [of self "pre @ Inr bad # post" task region]
  by (simp add: import_unfold [OF assms(1,2)] assms(3) emit_def fst_and_then snd_and_then)

theorem error_status_aborts_witness:
  "import_reply sample_aws = Inr (JObj [(''ImportTaskId'', JStr ''import-snap-1'')])
   \<and> py_get (JObj [(''ImportTaskId'', JStr ''import-snap-1'')]) ''ImportTaskId'' =
       Inr (JStr ''import-snap-1'')
   \<and> non_terminal (Inr (status_document ''active'' []))
   \<and> snapshot_task_detail (status_document ''error'' []) ''Status'' = Inr (JStr ''error'')
   \<and> snd (import_snapshot_and_create_ami aws_creator
             (sample_aws\<lparr>status_replies :=
                [Inr (status_document ''active'' [])] @
                Inr (status_document ''error'' []) #
                [Inr (status_document ''completed'' [(''SnapshotId'', JStr ''snap-1'')])]\<rparr>)
             ''disk.raw'' ''b'' None True ''us-east-1'') = Returned None
   \<and> commands (fst (import_snapshot_and_create_ami aws_creator
             (sample_aws\<lparr>status_replies :=
                [Inr (status_document ''active'' [])] @
                Inr (status_document ''error'' []) #
                [Inr (status_document ''completed'' [(''SnapshotId'', JStr ''snap-1'')])]\<rparr>)
             ''disk.raw'' ''b'' None True ''us-east-1'')) =
       [[''aws'', ''ec2'', ''import-snapshot'', ''--disk-container'',
         ''Format=raw,UserBucket={S3Bucket=b,S3Key=disk.raw}'',
         ''--description'', ''Imported snapshot from raw file'', ''--region'', ''us-east-1''],
        [''aws'', ''ec2'', ''describe-import-snapshot-tasks'', ''--import-task-ids'',
         ''import-snap-1'', ''--region'', ''us-east-1''],
        [''aws'', ''ec2'', ''describe-import-snapshot-tasks'', ''--import-task-ids'',
         ''import-snap-1'', ''--region'', ''us-east-1'']]"
  using error_status_aborts
          [of "sample_aws\<lparr>status_replies :=
                [Inr (status_document ''active'' [])] @
                Inr (status_document ''error'' []) #
                [Inr (status_document ''completed'' [(''SnapshotId'', JStr ''snap-1'')])]\<rparr>"
              "JObj [(''ImportTaskId'', JStr ''import-snap-1'')]" "''import-snap-1''"
              "[Inr (status_document ''active'' [])]" "status_document ''error'' []"
              "[Inr (status_document ''completed'' [(''SnapshotId'', JStr ''snap-1'')])]"
              aws_creator "''disk.raw''" "''b''" None True "''us-east-1''"]
  by (simp add: sample_aws_def non_terminal_def status_document_def snapshot_task_detail_def
        describe_args_def import_args_def aws_creator_def)

section \<open>Commands of a completed AWS import\<close>

lemma commands_reprompts: "commands (concat (replicate n [Input q, Print m])) = []"
  by (induction n) simp_all

lemma register_commands_auto:
  assumes "snapshot_task_detail done ''SnapshotId'' = Inr snapshot_id"
  shows "commands (fst (register_and_cleanup self world done name bucket boot True region)) =
     [register_args self name snapshot_id boot region,
      [aws_cli_path self, ''s3'', ''rm'', ''s3://'' @ name @ ''/'' @ bucket, ''--region'', region]]"
  using assms
  by (simp add: register_and_cleanup_def Let_def emit_def fst_and_then delete_s3_object_def
        commands_append)

lemma register_commands_prompt:
  assumes "snapshot_task_detail done ''SnapshotId'' = Inr snapshot_id"
    and "aws_keyboard world = junk @ x # rest"
    and "\<forall>line\<in>set junk. no_answer line"
    and "py_lower x = ''y''"
  shows "commands (fst (register_and_cleanup self world done name bucket boot False region)) =
     [register_args self name snapshot_id boot region,
      [aws_cli_path self, ''s3'', ''rm'', ''s3://'' @ bucket @ ''/'' @ name, ''--region'', region]]"
  using assms(1,4) aws_prompt_cases [OF assms(3), of x self rest bucket name region]
  by (simp add: register_and_cleanup_def Let_def emit_def fst_and_then assms(2)
        commands_append commands_reprompts)

lemma import_commands:
  assumes "import_reply world = Inr doc" and "py_get doc ''ImportTaskId'' = Inr (JStr task)"
    and "status_replies world = pre @ Inr done # post"
    and "\<forall>r\<in>set pre. non_terminal r"
    and "snapshot_task_detail done ''Status'' = Inr (JStr ''completed'')"
  shows "commands (fst (import_snapshot_and_create_ami self world name bucket boot del region)) =
        import_args self name bucket region #
        replicate (length pre + 1) (describe_args self task region) @
        commands (fst (register_and_cleanup self world done name bucket boot del region))"
    and "snd (import_snapshot_and_create_ami self world name bucket boot del region) =
         snd (register_and_cleanup self world done name bucket boot del region)"
  using wait_completed [OF assms(4,5), of self post task region]
  by (simp_all add: import_unfold [OF assms(1,2)] assms(3) emit_def fst_and_then snd_and_then
        commands_append)

text \<open>
  Claim C10.  In the interactive cleanup of the AWS importer (auto-delete unset, the
  first line that answers is \<open>y\<close> or \<open>Y\<close>) the delete command is started on
  \<open>s3://<bucket>/<object>\<close>: the importer passes bucket and object to the prompt in
  exchanged positions, the prompt passes them on to the delete exchanged again, and the
  two exchanges cancel.  The commands of such a run are the import request, the status
  queries, the registration and that delete.
\<close>

theorem interactive_delete_targets_uploaded_object:
  assumes "import_reply world = Inr doc" and "py_get doc ''ImportTaskId'' = Inr (JStr task)"
    and "status_replies world = pre @ Inr done # post"
    and "\<forall>r\<in>set pre. non_terminal r"
    and "snapshot_task_detail done ''Status'' = Inr (JStr ''completed'')"
    and "snapshot_task_detail done ''SnapshotId'' = Inr snapshot_id"
    and "aws_keyboard world = junk @ x # rest"
    and "\<forall>line\<in>set junk. line \<notin> {''y'', ''Y'', ''n'', ''N''}"
    and "x \<in> {''y'', ''Y''}"
  shows "commands (fst (import_snapshot_and_create_ami self world s3_object_name s3_bucket_name
                          boot_mode False region)) =
         import_args self s3_object_name s3_bucket_name region #
         replicate (length pre + 1) (describe_args self task region) @
         [register_args self s3_object_name snapshot_id boot_mode region,
          [aws_cli_path self, ''s3'', ''rm'',
           ''s3://'' @ s3_bucket_name @ ''/'' @ s3_object_name, ''--region'', region]]"
proof -
  from assms(8) have quiet: "\<forall>line\<in>set junk. no_answer line"
    by (simp add: no_answer_iff)
  from assms(9) have yes: "py_lower x = ''y''"
    by (simp add: py_lower_y)
  show ?thesis
    by (simp add: import_commands(1) [OF assms(1-5)]
          register_commands_prompt [OF assms(6,7) quiet yes])
qed

theorem interactive_delete_targets_uploaded_object_witness:
  "import_reply sample_aws = Inr (JObj [(''ImportTaskId'', JStr ''import-snap-1'')])
   \<and> py_get (JObj [(''ImportTaskId'', JStr ''import-snap-1'')]) ''ImportTaskId'' =
       Inr (JStr ''import-snap-1'')
   \<and> status_replies sample_aws =
       [Inr (status_document ''active'' [(''Progress'', JStr ''42'')])] @
       Inr (status_document ''completed'' [(''SnapshotId'', JStr ''snap-1'')]) # []
   \<and> non_terminal (Inr (status_document ''active'' [(''Progress'', JStr ''42'')]))
   \<and> snapshot_task_detail (status_document ''completed'' [(''SnapshotId'', JStr ''snap-1'')])
         ''Status'' = Inr (JStr ''completed'')
   \<and> snapshot_task_detail (status_document ''completed'' [(''SnapshotId'', JStr ''snap-1'')])
         ''SnapshotId'' = Inr (JStr ''snap-1'')
   \<and> aws_keyboard sample_aws = [''maybe''] @ ''Y'' # []
   \<and> ''maybe'' \<notin> {''y'', ''Y'', ''n'', ''N''}
   \<and> ''Y'' \<in> {''y'', ''Y''}
   \<and> commands (fst (import_snapshot_and_create_ami aws_creator sample_aws
                       ''disk_20240101000000.raw'' ''b'' None False ''us-east-1'')) =
       [[''aws'', ''ec2'', ''import-snapshot'', ''--disk-container'',
         ''Format=raw,UserBucket={S3Bucket=b,S3Key=disk_20240101000000.raw}'',
         ''--description'', ''Imported snapshot from raw file'', ''--region'', ''us-east-1''],
        [''aws'', ''ec2'', ''describe-import-snapshot-tasks'', ''--import-task-ids'',
         ''import-snap-1'', ''--region'', ''us-east-1''],
        [''aws'', ''ec2'', ''describe-import-snapshot-tasks'', ''--import-task-ids'',
         ''import-snap-1'', ''--region'', ''us-east-1''],
        [''aws'', ''ec2'', ''register-image'', ''--name'', ''disk_20240101000000.raw'',
         ''--architecture'', ''x86_64'', ''--block-device-mappings'',
         ''DeviceName=/dev/sda1,Ebs={SnapshotId=snap-1}'',
         ''--virtualization-type'', ''hvm'', ''--root-device-name'', ''/dev/sda1'',
         ''--region'', ''us-east-1'', ''--ena-support''],
        [''aws'', ''s3'', ''rm'', ''s3://b/disk_20240101000000.raw'', ''--region'', ''us-east-1'']]"
  using interactive_delete_targets_uploaded_object
          [of sample_aws "JObj [(''ImportTaskId'', JStr ''import-snap-1'')]" "''import-snap-1''"
              "[Inr (status_document ''active'' [(''Progress'', JStr ''42'')])]"
              "status_document ''completed'' [(''SnapshotId'', JStr ''snap-1'')]" "[]"
              "JStr ''snap-1''" "[''maybe'']" "''Y''" "[]"
              aws_creator "''disk_20240101000000.raw''" "''b''" None "''us-east-1''"]
  by (simp add: sample_aws_def non_terminal_def status_document_def snapshot_task_detail_def
        describe_args_def import_args_def register_args_def aws_creator_def truthy_def
        str_json_def)

section \<open>Automatic cleanup of the AWS importer\<close>

text \<open>With the auto-delete flag set the importer calls \<open>delete_s3_object\<close> with bucket
  and object in exchanged positions, once: the command names the object as the bucket
  and the bucket as the key.\<close>

lemma sample_import_commands:
  "commands (fst (import_snapshot_and_create_ami aws_creator sample_aws
                       ''disk_20240101000000.raw'' ''b'' None True ''us-east-1'')) =
       [[''aws'', ''ec2'', ''import-snapshot'', ''--disk-container'',
         ''Format=raw,UserBucket={S3Bucket=b,S3Key=disk_20240101000000.raw}'',
         ''--description'', ''Imported snapshot from raw file'', ''--region'', ''us-east-1''],
        [''aws'', ''ec2'', ''describe-import-snapshot-tasks'', ''--import-task-ids'',
         ''import-snap-1'', ''--region'', ''us-east-1''],
        [''aws'', ''ec2'', ''describe-import-snapshot-tasks'', ''--import-task-ids'',
         ''import-snap-1'', ''--region'', ''us-east-1''],
        [''aws'', ''ec2'', ''register-image'', ''--name'', ''disk_20240101000000.raw'',
         ''--architecture'', ''x86_64'', ''--block-device-mappings'',
         ''DeviceName=/dev/sda1,Ebs={SnapshotId=snap-1}'',
         ''--virtualization-type'', ''hvm'', ''--root-device-name'', ''/dev/sda1'',
         ''--region'', ''us-east-1'', ''--ena-support''],
        [''aws'', ''s3'', ''rm'', ''s3://disk_20240101000000.raw/b'', ''--region'', ''us-east-1'']]"
proof -
  have "commands (fst (import_snapshot_and_create_ami aws_creator sample_aws
                       ''disk_20240101000000.raw'' ''b'' None True ''us-east-1'')) =
        import_args aws_creator ''disk_20240101000000.raw'' ''b'' ''us-east-1'' #
        replicate (length [Inr (status_document ''active'' [(''Progress'', JStr ''42'')])] + 1)
          (describe_args aws_creator ''import-snap-1'' ''us-east-1'') @
        commands (fst (register_and_cleanup aws_creator sample_aws
           (status_document ''completed'' [(''SnapshotId'', JStr ''snap-1'')])
           ''disk_20240101000000.raw'' ''b'' None True ''us-east-1''))"
    using import_commands(1)
            [of sample_aws "JObj [(''ImportTaskId'', JStr ''import-snap-1'')]" "''import-snap-1''"
                "[Inr (status_document ''active'' [(''Progress'', JStr ''42'')])]"
                "status_document ''completed'' [(''SnapshotId'', JStr ''snap-1'')]" "[]"
                aws_creator "''disk_20240101000000.raw''" "''b''" None True "''us-east-1''"]
    by (simp add: sample_aws_def non_terminal_def status_document_def snapshot_task_detail_def)
  moreover have "commands (fst (register_and_cleanup aws_creator sample_aws
           (status_document ''completed'' [(''SnapshotId'', JStr ''snap-1'')])
           ''disk_20240101000000.raw'' ''b'' None True ''us-east-1'')) =
     [register_args aws_creator ''disk_20240101000000.raw'' (JStr ''snap-1'') None ''us-east-1'',
      [aws_cli_path aws_creator, ''s3'', ''rm'',
       ''s3://'' @ ''disk_20240101000000.raw'' @ ''/'' @ ''b'', ''--region'', ''us-east-1'']]"
    by (rule register_commands_auto)
       (simp add: status_document_def snapshot_task_detail_def)
  ultimately show ?thesis
    by (simp add: describe_args_def import_args_def register_args_def aws_creator_def truthy_def
          str_json_def)
qed

text \<open>The automatic cleanup of the other two importers names the uploaded object: the
  Azure delete is started on the blob in its container, the GCP delete on
  \<open>gs://<bucket>/<base name of the object>\<close>.\<close>

lemma azure_auto_delete:
  assumes "returncode (create_reply world) = 0"
    and "create_json world = Inr image_info"
    and "py_getitem image_info ''id'' = Inr ident"
  shows "commands (fst (create_image_from_blob self world blob_name True region resource_group
                          container_name storage_account_name)) =
         [[az_cli_path self, ''image'', ''create'',
           ''--resource-group'', resource_group,
           ''--name'', blob_name @ ''-'' @ create_time world,
           ''--source'', ''https://'' @ storage_account_name @ ''.blob.core.windows.net/'' @
                         container_name @ ''/'' @ blob_name,
           ''--os-type'', ''Linux'',
           ''--location'', region],
          [az_cli_path self, ''storage'', ''blob'', ''delete'',
           ''--account-name'', storage_account_name,
           ''--container-name'', container_name,
           ''--name'', blob_name]]"
  using assms
  by (simp add: create_image_from_blob_def Let_def emit_def and_then_def azure_delete_def)

lemma gcp_auto_delete:
  assumes "returncode (images_create_reply world) = 0"
    and "py_index (py_split_on CHR 0x0A (stdout (images_create_reply world))) 1 = Inr line"
    and "py_split line = image_name # image_project # others"
  shows "last (commands (fst (create_image self world gcloud_object_name gcp_bucket_name boot_mode
                                True))) =
         [gcp_cli_path self, ''storage'', ''rm'',
          ''gs://'' @ gcp_bucket_name @ ''/'' @ basename gcloud_object_name]"
proof -
  from assms(2) have second:
    "py_index (py_split_on CHR 0x0A (stdout (images_create_reply world))) (Suc 0) = Inr line"
    by simp
  have first_token: "py_index (image_name # image_project # others) 0 = Inr image_name"
    and second_token: "py_index (image_name # image_project # others) (Suc 0) = Inr image_project"
    by (simp_all add: py_index_def)
  show ?thesis
    by (simp add: create_image_def Let_def assms(1,3) second first_token second_token emit_def
          and_then_def gcp_delete_def)
qed

text \<open>
  Claim C1 (a defect of the code).  The claim wants the automatic cleanup to delete the
  uploaded object, \<open>s3://<bucket>/<object>\<close> for AWS.  Run
  \<open>-i disk.raw -c aws --bucket b --delete --region us-east-1\<close> against the sample
  session: the file is uploaded to \<open>s3://b/disk_20240101000000.raw\<close>, and the delete
  that follows the registration is started on \<open>s3://disk_20240101000000.raw/b\<close>.
\<close>

theorem auto_delete_exchanges_bucket_and_object:
  "commands (fst (main sample_world sample_args)) =
       [[''aws'', ''s3'', ''cp'', ''disk.raw'', ''s3://b/disk_20240101000000.raw'',
         ''--region'', ''us-east-1''],
        [''aws'', ''ec2'', ''import-snapshot'', ''--disk-container'',
         ''Format=raw,UserBucket={S3Bucket=b,S3Key=disk_20240101000000.raw}'',
         ''--description'', ''Imported snapshot from raw file'', ''--region'', ''us-east-1''],
        [''aws'', ''ec2'', ''describe-import-snapshot-tasks'', ''--import-task-ids'',
         ''import-snap-1'', ''--region'', ''us-east-1''],
        [''aws'', ''ec2'', ''describe-import-snapshot-tasks'', ''--import-task-ids'',
         ''import-snap-1'', ''--region'', ''us-east-1''],
        [''aws'', ''ec2'', ''register-image'', ''--name'', ''disk_20240101000000.raw'',
         ''--architecture'', ''x86_64'', ''--block-device-mappings'',
         ''DeviceName=/dev/sda1,Ebs={SnapshotId=snap-1}'',
         ''--virtualization-type'', ''hvm'', ''--root-device-name'', ''/dev/sda1'',
         ''--region'', ''us-east-1'', ''--ena-support''],
        [''aws'', ''s3'', ''rm'', ''s3://disk_20240101000000.raw/b'', ''--region'', ''us-east-1'']]"
proof -
  have up: "upload_to_s3 aws_creator ''20240101000000'' ''disk.raw'' ''b'' ''us-east-1'' =
      ([Run [''aws'', ''s3'', ''cp'', ''disk.raw'', ''s3://b/disk_20240101000000.raw'',
         ''--region'', ''us-east-1'']], Returned ''disk_20240101000000.raw'')"
    by (simp add: upload_to_s3_def aws_creator_def basename_def splitext_def py_rfind_def Let_def)
  have "main sample_world sample_args =
     and_then (upload_to_s3 aws_creator ''20240101000000'' ''disk.raw'' ''b'' ''us-east-1'')
                (\<lambda>s3_object_name.
                   emit [Print (''Uploaded as: '' @ s3_object_name)]
                     (and_then
                        (import_snapshot_and_create_ami aws_creator sample_aws
                           s3_object_name ''b'' None True ''us-east-1'')
                        (\<lambda>ami_id. ([Print (''Resulting AMI ID: '' @ str_opt ami_id)],
                                    Returned ()))))"
    by (simp add: main_def main_aws_def sample_args_def sample_world_def truthy_def str_opt_def
          aws_creator_def Let_def and_then_def [of "([], Returned (Some ''disk.raw''))"])
  then show ?thesis
    by (simp add: up and_then_def [of "(a, Returned b)" for a b] emit_def fst_and_then
          commands_append sample_import_commands split: outcome.splits)
qed

section \<open>Registration of a snapshot that is already in use\<close>

text \<open>\<open>needle in s\<close> holds exactly when \<open>needle\<close> is a segment of \<open>s\<close>.\<close>

lemma take_length_eq: "(take (length n) s = n) = (\<exists>b. s = n @ b)"
  by (metis append_eq_conv_conj append_take_drop_id)

lemma py_in_iff: "py_in needle s = (\<exists>a b. s = a @ needle @ b)"
proof (induction s)
  case Nil
  show ?case by auto
next
  case (Cons x s)
  have "(\<exists>a b. x # s = a @ needle @ b) =
        ((\<exists>b. x # s = needle @ b) \<or> (\<exists>a b. s = a @ needle @ b))"
    by (auto simp add: Cons_eq_append_conv) 
  with Cons show ?case
    by (simp add: take_length_eq del: take_Suc_Cons)
qed


lemma in_use_stderr:
  "py_in ''already in use''
     (str_CompletedProcess args
        \<lparr>returncode = rc, stdout = out, stderr = ''Snapshot snap-1 is already in use''\<rparr>)"
proof -
  have "py_repr ''Snapshot snap-1 is already in use'' =
          ([CHR 0x27] @ ''Snapshot snap-1 is '') @ ''already in use'' @ [CHR 0x27]"
    by (simp add: py_repr_def repr_quote_def repr_char_def Let_def)
  then have "str_CompletedProcess args
        \<lparr>returncode = rc, stdout = out, stderr = ''Snapshot snap-1 is already in use''\<rparr> =
     (''CompletedProcess(args='' @ repr_str_list args @ '', returncode='' @ str_int rc @
      '', stdout='' @ py_repr out @ '', stderr='' @ [CHR 0x27] @ ''Snapshot snap-1 is '') @
     ''already in use'' @ ([CHR 0x27] @ '')'')"
    by (simp add: str_CompletedProcess_def)
  then show ?thesis
    unfolding py_in_iff by blast
qed

lemma register_in_use:
  assumes "snapshot_task_detail done ''SnapshotId'' = Inr snapshot_id"
    and "py_in ''already in use''
           (str_CompletedProcess (register_args self name snapshot_id boot region)
              (register_reply world))"
  shows "register_and_cleanup self world done name bucket boot True region =
     ([Run (register_args self name snapshot_id boot region),
       Print ''This snapshot is already in use:'',
       Print (str_CompletedProcess (register_args self name snapshot_id boot region)
                (register_reply world)),
       Run [aws_cli_path self, ''s3'', ''rm'', ''s3://'' @ name @ ''/'' @ bucket,
            ''--region'', region]],
      Raised UnboundLocalError)"
  using assms
  by (simp add: register_and_cleanup_def Let_def emit_def and_then_def delete_s3_object_def)

text \<open>
  Claim C2 (a defect of the code).  The claim wants a run whose registration reports
  "already in use" to end normally.  Run the sample arguments against a session whose
  registration fails with that message: the importer reports it and runs the cleanup,
  and then raises \<open>UnboundLocalError\<close> at \<open>return ami_id\<close>, which \<open>main\<close> does not
  catch; the delete command is the last event of the run.
\<close>

theorem in_use_registration_raises:
  "snd (main in_use_world sample_args) = Raised UnboundLocalError
   \<and> Print ''This snapshot is already in use:'' \<in> set (fst (main in_use_world sample_args))
   \<and> last (fst (main in_use_world sample_args)) =
       Run [''aws'', ''s3'', ''rm'', ''s3://disk_20240101000000.raw/b'', ''--region'', ''us-east-1'']"
proof -
  let ?w = "sample_aws\<lparr>register_reply :=
         \<lparr>returncode = 254, stdout = [], stderr = ''Snapshot snap-1 is already in use''\<rparr>\<rparr>"
  let ?done = "status_document ''completed'' [(''SnapshotId'', JStr ''snap-1'')]"
  let ?args = "register_args aws_creator ''disk_20240101000000.raw'' (JStr ''snap-1'') None ''us-east-1''"
  have up: "upload_to_s3 aws_creator ''20240101000000'' ''disk.raw'' ''b'' ''us-east-1'' =
      ([Run [''aws'', ''s3'', ''cp'', ''disk.raw'', ''s3://b/disk_20240101000000.raw'',
         ''--region'', ''us-east-1'']], Returned ''disk_20240101000000.raw'')"
    by (simp add: upload_to_s3_def aws_creator_def basename_def splitext_def py_rfind_def Let_def)
  have main: "main in_use_world sample_args =
     and_then (upload_to_s3 aws_creator ''20240101000000'' ''disk.raw'' ''b'' ''us-east-1'')
                (\<lambda>s3_object_name.
                   emit [Print (''Uploaded as: '' @ s3_object_name)]
                     (and_then
                        (import_snapshot_and_create_ami aws_creator ?w
                           s3_object_name ''b'' None True ''us-east-1'')
                        (\<lambda>ami_id. ([Print (''Resulting AMI ID: '' @ str_opt ami_id)],
                                    Returned ()))))"
    by (simp add: main_def main_aws_def sample_args_def in_use_world_def sample_world_def truthy_def
          str_opt_def aws_creator_def Let_def and_then_def [of "([], Returned (Some ''disk.raw''))"])
  have reg: "register_and_cleanup aws_creator ?w ?done ''disk_20240101000000.raw'' ''b'' None True
               ''us-east-1'' =
     ([Run ?args,
       Print ''This snapshot is already in use:'',
       Print (str_CompletedProcess ?args (register_reply ?w)),
       Run [aws_cli_path aws_creator, ''s3'', ''rm'',
            ''s3://'' @ ''disk_20240101000000.raw'' @ ''/'' @ ''b'', ''--region'', ''us-east-1'']],
      Raised UnboundLocalError)"
    by (rule register_in_use)
       (simp_all add: status_document_def snapshot_task_detail_def in_use_stderr)
  have imp: "import_snapshot_and_create_ami aws_creator ?w ''disk_20240101000000.raw'' ''b'' None True
               ''us-east-1'' =
     emit [Run (import_args aws_creator ''disk_20240101000000.raw'' ''b'' ''us-east-1'')]
       (and_then (wait_for_import aws_creator (status_replies ?w) ''import-snap-1'' ''us-east-1'')
          (\<lambda>exit. case exit of
                     Return \<Rightarrow> ([], Returned None)
                   | Break status_response_json \<Rightarrow>
                       register_and_cleanup aws_creator ?w status_response_json
                         ''disk_20240101000000.raw'' ''b'' None True ''us-east-1''))"
    by (rule import_unfold [where doc = "JObj [(''ImportTaskId'', JStr ''import-snap-1'')]"])
       (simp_all add: sample_aws_def)
  have wait: "snd (wait_for_import aws_creator (status_replies sample_aws) ''import-snap-1'' ''us-east-1'') =
      Returned (Break ?done)"
    using wait_completed(1) [of "[Inr (status_document ''active'' [(''Progress'', JStr ''42'')])]"
            ?done aws_creator "[]" "''import-snap-1''" "''us-east-1''"]
    by (simp add: sample_aws_def non_terminal_def status_document_def snapshot_task_detail_def)
  have run: "snd (import_snapshot_and_create_ami aws_creator ?w ''disk_20240101000000.raw'' ''b'' None
                True ''us-east-1'') = Raised UnboundLocalError"
    and trace: "\<exists>front. fst (import_snapshot_and_create_ami aws_creator ?w ''disk_20240101000000.raw''
                ''b'' None True ''us-east-1'') =
          front @ [Run ?args,
       Print ''This snapshot is already in use:'',
       Print (str_CompletedProcess ?args (register_reply ?w)),
       Run [aws_cli_path aws_creator, ''s3'', ''rm'',
            ''s3://'' @ ''disk_20240101000000.raw'' @ ''/'' @ ''b'', ''--region'', ''us-east-1'']]"
    by (simp_all add: imp emit_def fst_and_then snd_and_then wait reg)
  from trace obtain front where front: "fst (import_snapshot_and_create_ami aws_creator ?w ''disk_20240101000000.raw''
                ''b'' None True ''us-east-1'') =
          front @ [Run ?args,
       Print ''This snapshot is already in use:'',
       Print (str_CompletedProcess ?args (register_reply ?w)),
       Run [aws_cli_path aws_creator, ''s3'', ''rm'',
            ''s3://'' @ ''disk_20240101000000.raw'' @ ''/'' @ ''b'', ''--region'', ''us-east-1'']]"
    by blast
  have cli: "aws_cli_path aws_creator = ''aws''"
    by (simp add: aws_creator_def)
  show ?thesis
    by (simp add: main up and_then_def [of "(a, Returned b)" for a b] emit_def fst_and_then
          snd_and_then run front cli)
qed

section \<open>The progress field\<close>

text \<open>Dropping the progress field changes no other field the importer reads, and it makes
  the read of the progress fail.\<close>

lemma map_of_update_key:
  "map_of (update_key k f kvs) k' =
     (if k' = k then map_option f (map_of kvs k) else map_of kvs k')"
  by (induction kvs) auto

lemma map_of_filter_key:
  "k' \<noteq> k \<Longrightarrow> map_of (filter (\<lambda>kv. fst kv \<noteq> k) kvs) k' = map_of kvs k'"
  by (induction kvs) auto

lemma getitem_without_progress:
  "py_getitem (without_progress doc) ''ImportSnapshotTasks'' =
     (case py_getitem doc ''ImportSnapshotTasks'' of
        Inl e \<Rightarrow> Inl e | Inr tasks \<Rightarrow> Inr (drop_progress_tasks tasks))"
  by (cases doc) (simp_all add: without_progress_def map_of_update_key split: option.splits)

lemma getitem0_drop_progress:
  "py_getitem0 (drop_progress_tasks tasks) =
     (case py_getitem0 tasks of Inl e \<Rightarrow> Inl e | Inr task \<Rightarrow> Inr (drop_progress_task task))"
proof (cases tasks)
  case (JArr xs)
  then show ?thesis
    by (cases xs) (simp_all add: drop_progress_tasks_def)
next
  case (JStr s)
  then show ?thesis
    by (cases s) (simp_all add: drop_progress_tasks_def drop_progress_task_def)
qed (simp_all add: drop_progress_tasks_def)

lemma getitem_drop_progress_task:
  "py_getitem (drop_progress_task task) ''SnapshotTaskDetail'' =
     (case py_getitem task ''SnapshotTaskDetail'' of
        Inl e \<Rightarrow> Inl e | Inr detail \<Rightarrow> Inr (drop_progress_detail detail))"
  by (cases task) (simp_all add: drop_progress_task_def map_of_update_key split: option.splits)

lemma getitem_drop_progress_detail:
  "field \<noteq> ''Progress'' \<Longrightarrow>
   py_getitem (drop_progress_detail detail) field = py_getitem detail field"
  by (cases detail) (simp_all add: drop_progress_detail_def map_of_filter_key)

lemma detail_without_progress:
  "field \<noteq> ''Progress'' \<Longrightarrow>
   snapshot_task_detail (without_progress doc) field = snapshot_task_detail doc field"
  by (simp add: snapshot_task_detail_def getitem_without_progress getitem0_drop_progress
        getitem_drop_progress_task getitem_drop_progress_detail split: sum.splits)

lemma register_without_progress:
  "register_and_cleanup self world (without_progress doc) name bucket boot del region =
   register_and_cleanup self world doc name bucket boot del region"
  by (simp add: register_and_cleanup_def detail_without_progress)

lemma wait_without_progress:
  "snd (wait_for_import self (map reply_without_progress replies) task region) =
     (case snd (wait_for_import self replies task region) of
        Returned (Break doc) \<Rightarrow> Returned (Break (without_progress doc))
      | Returned Return \<Rightarrow> Returned Return
      | Raised e \<Rightarrow> Raised e
      | Blocked \<Rightarrow> Blocked)
   \<and> filter (\<lambda>e. \<not> is_print e)
        (fst (wait_for_import self (map reply_without_progress replies) task region)) =
      filter (\<lambda>e. \<not> is_print e) (fst (wait_for_import self replies task region))"
proof (induction replies)
  case Nil
  show ?case by simp
next
  case (Cons reply replies)
  show ?case
  proof (cases reply)
    case (Inl e)
    then show ?thesis
      by (simp add: reply_without_progress_def emit_def)
  next
    case (Inr doc)
    show ?thesis
    proof (cases "snapshot_task_detail doc ''Status''")
      case (Inl e)
      with Inr show ?thesis
        by (simp add: reply_without_progress_def emit_def detail_without_progress)
    next
      case status: (Inr status)
      with Inr Cons show ?thesis
        by (simp add: reply_without_progress_def emit_def detail_without_progress
              split: sum.splits)
    qed
  qed
qed


lemma map_of_filter_same: "map_of (filter (\<lambda>kv. fst kv \<noteq> k) kvs) k = None"
  by (induction kvs) auto

lemma progress_dropped:
  "\<exists>e. snapshot_task_detail (without_progress doc) ''Progress'' = Inl e"
proof -
  have "\<exists>e. py_getitem (drop_progress_detail detail) ''Progress'' = Inl e" for detail
    by (cases detail) (simp_all add: drop_progress_detail_def map_of_filter_same)
  then show ?thesis
    by (simp add: snapshot_task_detail_def getitem_without_progress getitem0_drop_progress
          getitem_drop_progress_task split: sum.splits)
qed

lemma register_ignores_status_replies:
  "register_and_cleanup self (world\<lparr>status_replies := replies\<rparr>) doc name bucket boot del region =
   register_and_cleanup self world doc name bucket boot del region"
  by (simp add: register_and_cleanup_def Let_def split: sum.splits)

lemma import_without_progress:
  "snd (import_snapshot_and_create_ami self
          (world\<lparr>status_replies := map reply_without_progress replies\<rparr>)
          name bucket boot del region) =
   snd (import_snapshot_and_create_ami self (world\<lparr>status_replies := replies\<rparr>)
          name bucket boot del region)
   \<and> filter (\<lambda>e. \<not> is_print e)
        (fst (import_snapshot_and_create_ami self
                (world\<lparr>status_replies := map reply_without_progress replies\<rparr>)
                name bucket boot del region)) =
      filter (\<lambda>e. \<not> is_print e)
        (fst (import_snapshot_and_create_ami self (world\<lparr>status_replies := replies\<rparr>)
                name bucket boot del region))"
proof (cases "import_reply world")
  case (Inl e)
  then show ?thesis
    by (simp add: import_snapshot_and_create_ami_def emit_def)
next
  case (Inr doc)
  show ?thesis
  proof (cases "py_get doc ''ImportTaskId''")
    case (Inl e)
    with Inr show ?thesis
      by (simp add: import_snapshot_and_create_ami_def emit_def)
  next
    case task: (Inr import_task_id)
    show ?thesis
    proof (cases "\<exists>task. import_task_id = JStr task")
      case False
      with Inr task show ?thesis
        by (cases import_task_id)
           (simp_all add: import_snapshot_and_create_ami_def emit_def and_then_def)
    next
      case True
      then obtain t where t: "import_task_id = JStr t" by blast
      note w = wait_without_progress [of self replies t region]
      from Inr task t w show ?thesis
        by (simp add: import_snapshot_and_create_ami_def emit_def fst_and_then snd_and_then
              register_ignores_status_replies register_without_progress
            split: outcome.splits loop_exit.splits)
    qed
  qed
qed

text \<open>
  Claim C9.  Take two sequences of replies to the status queries that differ only in
  the progress field of their documents (they agree once the field is dropped from
  both, so the read of it may fail in one run and succeed in the other, at any poll).
  The two imports end with the same outcome, the same returned image identifier
  included, and apart from what they print they do the same things in the same order:
  the same commands, status queries among them, the same sleeps, the same prompts.  A
  missing progress field therefore never ends the polling.
\<close>

theorem progress_field_does_not_matter:
  assumes "map reply_without_progress replies = map reply_without_progress replies'"
  shows "snd (import_snapshot_and_create_ami self (world\<lparr>status_replies := replies\<rparr>)
                name bucket boot del region) =
         snd (import_snapshot_and_create_ami self (world\<lparr>status_replies := replies'\<rparr>)
                name bucket boot del region)
     \<and> filter (\<lambda>e. \<not> is_print e)
          (fst (import_snapshot_and_create_ami self (world\<lparr>status_replies := replies\<rparr>)
                  name bucket boot del region)) =
        filter (\<lambda>e. \<not> is_print e)
          (fst (import_snapshot_and_create_ami self (world\<lparr>status_replies := replies'\<rparr>)
                  name bucket boot del region))"
  using import_without_progress [where self = self and world = world and replies = replies
          and name = name and bucket = bucket and boot = boot and del = del and region = region]
        import_without_progress [where self = self and world = world and replies = replies'
          and name = name and bucket = bucket and boot = boot and del = del and region = region]
  by (simp add: assms)

theorem progress_field_does_not_matter_witness:
  "map reply_without_progress
     [Inr (status_document ''active'' [(''Progress'', JStr ''42'')]),
      Inr (status_document ''completed'' [(''SnapshotId'', JStr ''snap-1'')])] =
   map reply_without_progress
     [Inr (status_document ''active'' []),
      Inr (status_document ''completed'' [(''SnapshotId'', JStr ''snap-1'')])]
   \<and> snd (import_snapshot_and_create_ami aws_creator
            (sample_aws\<lparr>status_replies :=
               [Inr (status_document ''active'' [(''Progress'', JStr ''42'')]),
                Inr (status_document ''completed'' [(''SnapshotId'', JStr ''snap-1'')])]\<rparr>)
            ''disk.raw'' ''b'' None True ''us-east-1'') =
       snd (import_snapshot_and_create_ami aws_creator
            (sample_aws\<lparr>status_replies :=
               [Inr (status_document ''active'' []),
                Inr (status_document ''completed'' [(''SnapshotId'', JStr ''snap-1'')])]\<rparr>)
            ''disk.raw'' ''b'' None True ''us-east-1'')"
  using progress_field_does_not_matter
          [where replies = "[Inr (status_document ''active'' [(''Progress'', JStr ''42'')]),
                Inr (status_document ''completed'' [(''SnapshotId'', JStr ''snap-1'')])]"
             and replies' = "[Inr (status_document ''active'' []),
                Inr (status_document ''completed'' [(''SnapshotId'', JStr ''snap-1'')])]"
             and self = aws_creator and world = sample_aws and name = "''disk.raw''"
             and bucket = "''b''" and boot = None and del = True and region = "''us-east-1''"]
  by (simp add: reply_without_progress_def without_progress_def drop_progress_tasks_def
        drop_progress_task_def drop_progress_detail_def status_document_def)

section \<open>The response of the GCP image creation\<close>

lemma split_on_acc_first:
  "c \<notin> set h \<Longrightarrow> split_on_acc c (h @ c # t) cur = (cur @ h) # split_on_acc c t []"
  by (induction h arbitrary: cur) auto

lemma split_on_acc_head:
  "\<exists>others. split_on_acc c t cur = (cur @ takeWhile (\<lambda>x. x \<noteq> c) t) # others"
proof (induction t arbitrary: cur)
  case Nil
  show ?case by simp
next
  case (Cons a t)
  show ?case
  proof (cases "a = c")
    case True
    then show ?thesis by simp
  next
    case False
    with Cons [of "cur @ [a]"] show ?thesis by simp
  qed
qed

lemma split_ws_acc_token:
  "\<forall>c\<in>set tok. \<not> py_isspace c \<Longrightarrow> split_ws_acc (tok @ s) cur = split_ws_acc s (cur @ tok)"
  by (induction tok arbitrary: cur) auto

lemma split_ws_acc_skip:
  "\<forall>c\<in>set gap. py_isspace c \<Longrightarrow> split_ws_acc (gap @ s) [] = split_ws_acc s []"
  by (induction gap) auto

lemma split_ws_acc_gap:
  "\<forall>c\<in>set gap. py_isspace c \<Longrightarrow> gap \<noteq> [] \<Longrightarrow> cur \<noteq> [] \<Longrightarrow>
   split_ws_acc (gap @ s) cur = cur # split_ws_acc s []"
  by (cases gap) (simp_all add: split_ws_acc_skip)

lemma split_ws_acc_end:
  "cur \<noteq> [] \<Longrightarrow> rest = [] \<or> py_isspace (hd rest) \<Longrightarrow>
   \<exists>others. split_ws_acc rest cur = cur # others"
  by (cases rest) auto

lemma py_split_two_tokens:
  assumes "name \<noteq> []" and "\<forall>c\<in>set name. \<not> py_isspace c"
    and "gap \<noteq> []" and "\<forall>c\<in>set gap. py_isspace c"
    and "project \<noteq> []" and "\<forall>c\<in>set project. \<not> py_isspace c"
    and "rest = [] \<or> py_isspace (hd rest)"
    and "\<forall>c\<in>set lead. py_isspace c"
  shows "\<exists>others. py_split (lead @ name @ gap @ project @ rest) = name # project # others"
proof -
  have "py_split (lead @ name @ gap @ project @ rest) =
          split_ws_acc (name @ gap @ project @ rest) []"
    using assms(8) by (simp add: py_split_def split_ws_acc_skip)
  also have "\<dots> = split_ws_acc (gap @ project @ rest) name"
    using assms(2) by (simp add: split_ws_acc_token)
  also have "\<dots> = name # split_ws_acc (project @ rest) []"
    using assms(1,3,4) by (simp add: split_ws_acc_gap)
  also have "split_ws_acc (project @ rest) [] = split_ws_acc rest project"
    using assms(6) by (simp add: split_ws_acc_token)
  finally show ?thesis
    using split_ws_acc_end [OF assms(5,7)] by auto
qed

lemma second_line:
  assumes "CHR 0x0A \<notin> set header"
  shows "py_index (py_split_on CHR 0x0A (header @ [CHR 0x0A] @ t)) 1 =
           Inr (takeWhile (\<lambda>x. x \<noteq> CHR 0x0A) t)"
proof -
  obtain others where "split_on_acc CHR 0x0A t [] = takeWhile (\<lambda>x. x \<noteq> CHR 0x0A) t # others"
    using split_on_acc_head [of "CHR 0x0A" t "[]"] by auto
  with assms show ?thesis
    by (simp add: py_split_on_def split_on_acc_first py_index_def)
qed

lemma gcp_prompt_outcome:
  "snd (gcp_prompt_delete self keyboard name bucket) =
     (if \<exists>line\<in>set keyboard. \<not> no_answer line then Returned () else Blocked)"
  by (induction keyboard)
     (auto simp add: emit_def and_then_def gcp_delete_def no_answer_def Let_def)


lemma takeWhile_prefix:
  "c \<notin> set xs \<Longrightarrow> takeWhile (\<lambda>x. x \<noteq> c) (xs @ ys) = xs @ takeWhile (\<lambda>x. x \<noteq> c) ys"
  by (induction xs) auto

text \<open>
  Claim C6.  Let the create-image command exit with 0 and print a first line, a
  newline, and a second line whose first two words are the image name and the project:
  the line may begin with whitespace, the two words are non-empty and free of
  whitespace, whitespace separates them, and after the project the text ends or goes on
  with whitespace (more words or lines may follow).  Whitespace is what \<open>str.split()\<close>
  takes for it.  Then \<open>create_image\<close> drops the first line and, once the cleanup is
  through (at once with auto-delete, otherwise after a line \<open>y\<close>, \<open>Y\<close>, \<open>n\<close> or \<open>N\<close>
  at the prompt), returns \<open>projects/<project>/global/images/<image name>\<close>; before
  such a line is typed it is waiting at the prompt.
\<close>

theorem create_image_returns_resource_path:
  assumes "returncode (images_create_reply world) = 0"
    and "stdout (images_create_reply world) =
           header @ [CHR 0x0A] @ lead @ image_name @ gap @ image_project @ rest"
    and "CHR 0x0A \<notin> set header"
    and "image_name \<noteq> []" and "\<forall>c\<in>set image_name. \<not> py_isspace c"
    and "gap \<noteq> []" and "\<forall>c\<in>set gap. py_isspace c \<and> c \<noteq> CHR 0x0A"
    and "image_project \<noteq> []" and "\<forall>c\<in>set image_project. \<not> py_isspace c"
    and "rest = [] \<or> py_isspace (hd rest)"
    and "\<forall>c\<in>set lead. py_isspace c \<and> c \<noteq> CHR 0x0A"
  shows "snd (create_image self world gcloud_object_name gcp_bucket_name boot_mode
                delete_after_import) =
         (if delete_after_import \<or>
             (\<exists>line\<in>set (gcp_keyboard world). line \<in> {''y'', ''Y'', ''n'', ''N''})
          then Returned (Some (''projects/'' @ image_project @ ''/global/images/'' @ image_name))
          else Blocked)"
proof -
  let ?rest = "takeWhile (\<lambda>x. x \<noteq> CHR 0x0A) rest"
  have nl: "py_isspace CHR 0x0A"
    by (simp add: py_isspace_def)
  with assms(5,9) have "CHR 0x0A \<notin> set image_name" and "CHR 0x0A \<notin> set image_project"
    by auto
  moreover from assms(7,11) have "CHR 0x0A \<notin> set gap" and "CHR 0x0A \<notin> set lead"
    by auto
  ultimately have line:
    "takeWhile (\<lambda>x. x \<noteq> CHR 0x0A) (lead @ image_name @ gap @ image_project @ rest) =
       lead @ image_name @ gap @ image_project @ ?rest"
    by (simp add: takeWhile_prefix)
  from assms(10) have "?rest = [] \<or> py_isspace (hd ?rest)"
    by (cases rest) auto
  with assms(4-9,11) obtain others
    where tokens: "py_split (lead @ image_name @ gap @ image_project @ ?rest) =
                     image_name # image_project # others"
    using py_split_two_tokens [of image_name gap image_project ?rest lead] by auto
  have second: "py_index (py_split_on CHR 0x0A (stdout (images_create_reply world))) 1 =
                  Inr (lead @ image_name @ gap @ image_project @ ?rest)"
    using second_line [OF assms(3), of "lead @ image_name @ gap @ image_project @ rest"]
    by (simp add: assms(2) line)
  from second have second':
    "py_index (py_split_on CHR 0x0A (stdout (images_create_reply world))) (Suc 0) =
       Inr (lead @ image_name @ gap @ image_project @ ?rest)"
    by simp
  have first_token: "py_index (image_name # image_project # others) 0 = Inr image_name"
    and second_token: "py_index (image_name # image_project # others) (Suc 0) = Inr image_project"
    by (simp_all add: py_index_def)
  show ?thesis
    by (simp add: create_image_def Let_def assms(1) second' tokens first_token second_token
          emit_def snd_and_then gcp_prompt_outcome gcp_delete_def no_answer_iff)
qed

theorem create_image_returns_resource_path_witness:
  "returncode (images_create_reply sample_gcp) = 0
   \<and> stdout (images_create_reply sample_gcp) =
       ''NAME PROJECT'' @ [CHR 0x0A] @ [] @ ''img-x'' @ '' '' @ ''proj-y'' @ []
   \<and> CHR 0x0A \<notin> set ''NAME PROJECT''
   \<and> list_all (\<lambda>c. \<not> py_isspace c) ''img-x''
   \<and> list_all (\<lambda>c. py_isspace c \<and> c \<noteq> CHR 0x0A) '' ''
   \<and> list_all (\<lambda>c. \<not> py_isspace c) ''proj-y''
   \<and> snd (create_image gcp_creator sample_gcp ''disk.tar.gz'' ''b'' (Some ''uefi'') True) =
       Returned (Some ''projects/proj-y/global/images/img-x'')
   \<and> (\<exists>line\<in>set (gcp_keyboard sample_gcp). line \<in> {''y'', ''Y'', ''n'', ''N''})
   \<and> snd (create_image gcp_creator sample_gcp ''disk.tar.gz'' ''b'' (Some ''uefi'') False) =
       Returned (Some ''projects/proj-y/global/images/img-x'')
   \<and> stdout (images_create_reply padded_gcp) =
       ''NAME PROJECT STATUS'' @ [CHR 0x0A] @ ''  '' @ ''img-x'' @ [CHR 0xA0, CHR 0x09] @
       ''proj-y'' @ ('' READY'' @ [CHR 0x0A])
   \<and> list_all (\<lambda>c. py_isspace c \<and> c \<noteq> CHR 0x0A) ''  ''
   \<and> list_all (\<lambda>c. py_isspace c \<and> c \<noteq> CHR 0x0A) [CHR 0xA0, CHR 0x09]
   \<and> py_isspace (hd ('' READY'' @ [CHR 0x0A]))
   \<and> snd (create_image gcp_creator padded_gcp ''disk.tar.gz'' ''b'' None True) =
       Returned (Some ''projects/proj-y/global/images/img-x'')"
  using create_image_returns_resource_path
          [where world = sample_gcp and header = "''NAME PROJECT''" and lead = "[]"
             and image_name = "''img-x''"
             and gap = "'' ''" and image_project = "''proj-y''" and rest = "[]"
             and self = gcp_creator and gcloud_object_name = "''disk.tar.gz''"
             and gcp_bucket_name = "''b''" and boot_mode = "Some ''uefi''"
             and delete_after_import = True]
        create_image_returns_resource_path
          [where world = sample_gcp and header = "''NAME PROJECT''" and lead = "[]"
             and image_name = "''img-x''"
             and gap = "'' ''" and image_project = "''proj-y''" and rest = "[]"
             and self = gcp_creator and gcloud_object_name = "''disk.tar.gz''"
             and gcp_bucket_name = "''b''" and boot_mode = "Some ''uefi''"
             and delete_after_import = False]
        create_image_returns_resource_path
          [where world = padded_gcp and header = "''NAME PROJECT STATUS''" and lead = "''  ''"
             and image_name = "''img-x''"
             and gap = "[CHR 0xA0, CHR 0x09]" and image_project = "''proj-y''"
             and rest = "'' READY'' @ [CHR 0x0A]"
             and self = gcp_creator and gcloud_object_name = "''disk.tar.gz''"
             and gcp_bucket_name = "''b''" and boot_mode = None
             and delete_after_import = True]
  by (simp add: sample_gcp_def padded_gcp_def py_isspace_def)

end
